theory Spec2Isabelle
  imports Main
begin

section \<open>Values, responses and exceptions\<close>

text \<open>
  The views of \<^verbatim>\<open>peering/api/views.py\<close> pass Python values through to their responses
  and branch on their truthiness (\<^verbatim>\<open>if not success\<close>, \<^verbatim>\<open>not error\<close>,
  \<^verbatim>\<open>if not router.platform\<close>). The values are modelled by a small datatype and
  \<open>truthy\<close> is Python's truth test on it.
\<close>

datatype pyval =
    PyNone
  | PyBool bool
  | PyInt int
  | PyStr string
  | PyList "pyval list"
  | PyDict "(string \<times> pyval) list"

fun truthy :: "pyval \<Rightarrow> bool" where
  "truthy PyNone = False"
| "truthy (PyBool b) = b"
| "truthy (PyInt i) = (i \<noteq> 0)"
| "truthy (PyStr s) = (s \<noteq> [])"
| "truthy (PyList xs) = (xs \<noteq> [])"
| "truthy (PyDict kvs) = (kvs \<noteq> [])"

text \<open>
  \<open>Response status data\<close> is \<^verbatim>\<open>rest_framework.response.Response(data, status=...)\<close>
  (status 200 when none is given); \<open>HttpResponseForbidden\<close> is Django's 403 response,
  which the views return, not raise.
\<close>

datatype http_response =
    Response nat "(string \<times> pyval) list"
  | HttpResponseForbidden

definition HTTP_200_OK :: nat where
  "HTTP_200_OK = 200"

definition HTTP_404_NOT_FOUND :: nat where
  "HTTP_404_NOT_FOUND = 404"

text \<open>
  \<open>ServiceUnavailable msg\<close> is \<^verbatim>\<open>utils.api.ServiceUnavailable(msg)\<close>, raised by the views.
  \<open>Raised name\<close> stands for any exception that leaves a method of the model layer; a view
  has no \<^verbatim>\<open>try\<close> block, so it propagates unchanged.
\<close>

datatype exn =
    ServiceUnavailable string
  | Raised string

text \<open>\<^verbatim>\<open>rest_framework.permissions.SAFE_METHODS\<close>.\<close>

definition SAFE_METHODS :: "string list" where
  "SAFE_METHODS = [''GET'', ''HEAD'', ''OPTIONS'']"

section \<open>Entities read by the views\<close>

datatype bgp_state = Idle | Connect | Active | OpenSent | OpenConfirm | Established

record router =
  router_pk :: nat
  platform :: pyval

record internet_exchange =
  ix_pk :: nat
  ix_router :: "router option"

record bgp_group =
  group_pk :: nat

record autonomous_system =
  asn :: nat
  as_name :: string
  irr_as_set :: string
  peeringdb_net :: "nat option"

record direct_peering_session =
  dps_bgp_group :: "bgp_group option"
  dps_router :: "router option"
  dps_asn :: nat
  dps_ip_address :: string

record internet_exchange_peering_session =
  internet_exchange :: internet_exchange
  ixs_asn :: nat
  ixs_ip_address :: string
  enabled :: bool
  ixs_bgp_state :: bgp_state

datatype peering_session =
    DirectSession direct_peering_session
  | IXSession internet_exchange_peering_session

datatype target = RouterTarget router | IXTarget internet_exchange

datatype scope = BGPGroupScope bgp_group | IXScope internet_exchange

record request =
  request_method :: string
  has_perm :: "string \<Rightarrow> bool"

section \<open>The model layer and the log of its calls\<close>

text \<open>
  The methods of \<^verbatim>\<open>peering.models\<close> that the views call are parameters: a method takes
  its receiver and arguments and the world \<open>'w\<close> (database, registry, devices), and returns
  a value or raises, together with the new world. A view appends every call it makes to
  the log \<open>calls\<close>, in the order in which Python evaluates them.
\<close>

datatype call =
    SynchronizeWithPeeringdb autonomous_system
  | FindPotentialIxPeeringSessions autonomous_system
  | PollPeeringSessions scope
  | GetAvailablePeers internet_exchange
  | ImportPeeringSessionsFromRouter internet_exchange
  | GenerateConfiguration target
  | SetNapalmConfiguration router string bool
  | ClearBgpSession router peering_session

fun is_set_napalm_configuration :: "call \<Rightarrow> bool" where
  "is_set_napalm_configuration (SetNapalmConfiguration r config commit) = True"
| "is_set_napalm_configuration c = False"

fun is_clear_bgp_session :: "call \<Rightarrow> bool" where
  "is_clear_bgp_session (ClearBgpSession r s) = True"
| "is_clear_bgp_session c = False"

record 'w state =
  world :: 'w
  calls :: "call list"

definition start :: "'w \<Rightarrow> 'w state" where
  "start w = \<lparr>world = w, calls = []\<rparr>"

record 'w model_layer =
  AutonomousSystem_synchronize_with_peeringdb ::
    "autonomous_system \<Rightarrow> 'w \<Rightarrow> (exn + pyval) \<times> 'w"
  AutonomousSystem_find_potential_ix_peering_sessions ::
    "autonomous_system \<Rightarrow> 'w \<Rightarrow> (exn + pyval) \<times> 'w"
  BGPGroup_poll_peering_sessions ::
    "bgp_group \<Rightarrow> 'w \<Rightarrow> (exn + pyval) \<times> 'w"
  InternetExchange_poll_peering_sessions ::
    "internet_exchange \<Rightarrow> 'w \<Rightarrow> (exn + pyval) \<times> 'w"
  InternetExchange_get_available_peers ::
    "internet_exchange \<Rightarrow> 'w \<Rightarrow> (exn + pyval list option) \<times> 'w"
  InternetExchange_import_peering_sessions_from_router ::
    "internet_exchange \<Rightarrow> 'w \<Rightarrow> (exn + (nat \<times> nat \<times> nat list) option) \<times> 'w"
  InternetExchange_generate_configuration ::
    "internet_exchange \<Rightarrow> 'w \<Rightarrow> (exn + string) \<times> 'w"
  Router_generate_configuration ::
    "router \<Rightarrow> 'w \<Rightarrow> (exn + string) \<times> 'w"
  Router_set_napalm_configuration ::
    "router \<Rightarrow> string \<Rightarrow> bool \<Rightarrow> 'w \<Rightarrow> (exn + pyval \<times> pyval) \<times> 'w"
  Router_clear_bgp_session ::
    "router \<Rightarrow> peering_session \<Rightarrow> 'w \<Rightarrow> (exn + pyval) \<times> 'w"
  PeerRecordSerializer :: "pyval \<Rightarrow> pyval"

definition invoke ::
  "call \<Rightarrow> ('w \<Rightarrow> (exn + 'a) \<times> 'w) \<Rightarrow> 'w state \<Rightarrow> (exn + 'a) \<times> 'w state" where
  "invoke c f s =
     (case f (world s) of (r, w') \<Rightarrow> (r, \<lparr>world = w', calls = calls s @ [c]\<rparr>))"

section \<open>The views\<close>

text \<open>
  Each view takes the model layer, the request and the object that \<^verbatim>\<open>self.get_object()\<close>
  returns, and gives the response or the exception raised, with the state it leaves.
\<close>

subsection \<open>BGPGroupViewSet and InternetExchangeViewSet: poll_peering_sessions\<close>

definition BGPGroupViewSet_poll_peering_sessions ::
  "'w model_layer \<Rightarrow> request \<Rightarrow> bgp_group \<Rightarrow> 'w state \<Rightarrow> (exn + http_response) \<times> 'w state" where
  "BGPGroupViewSet_poll_peering_sessions m req obj s =
     (case invoke (PollPeeringSessions (BGPGroupScope obj))
             (BGPGroup_poll_peering_sessions m obj) s of
        (Inl e, s1) \<Rightarrow> (Inl e, s1)
      | (Inr success, s1) \<Rightarrow>
          if \<not> truthy success
          then (Inl (ServiceUnavailable ''Cannot update peering session states.''), s1)
          else (Inr (Response HTTP_200_OK [(''status'', PyStr ''success'')]), s1))"

definition InternetExchangeViewSet_poll_peering_sessions ::
  "'w model_layer \<Rightarrow> request \<Rightarrow> internet_exchange \<Rightarrow> 'w state \<Rightarrow> (exn + http_response) \<times> 'w state" where
  "InternetExchangeViewSet_poll_peering_sessions m req obj s =
     (case invoke (PollPeeringSessions (IXScope obj))
             (InternetExchange_poll_peering_sessions m obj) s of
        (Inl e, s1) \<Rightarrow> (Inl e, s1)
      | (Inr success, s1) \<Rightarrow>
          if \<not> truthy success
          then (Inl (ServiceUnavailable ''Cannot update peering session states.''), s1)
          else (Inr (Response HTTP_200_OK [(''status'', PyStr ''success'')]), s1))"

text \<open>The entry point \<open>pollSessions\<close> of either scope kind.\<close>

fun pollSessions ::
  "'w model_layer \<Rightarrow> request \<Rightarrow> scope \<Rightarrow> 'w state \<Rightarrow> (exn + http_response) \<times> 'w state" where
  "pollSessions m req (BGPGroupScope g) s = BGPGroupViewSet_poll_peering_sessions m req g s"
| "pollSessions m req (IXScope ix) s = InternetExchangeViewSet_poll_peering_sessions m req ix s"

fun poll_peering_sessions ::
  "'w model_layer \<Rightarrow> scope \<Rightarrow> 'w \<Rightarrow> (exn + pyval) \<times> 'w" where
  "poll_peering_sessions m (BGPGroupScope g) = BGPGroup_poll_peering_sessions m g"
| "poll_peering_sessions m (IXScope ix) = InternetExchange_poll_peering_sessions m ix"

subsection \<open>AutonomousSystemViewSet\<close>

definition AutonomousSystemViewSet_synchronize_with_peeringdb ::
  "'w model_layer \<Rightarrow> request \<Rightarrow> autonomous_system \<Rightarrow> 'w state \<Rightarrow> (exn + http_response) \<times> 'w state" where
  "AutonomousSystemViewSet_synchronize_with_peeringdb m req obj s =
     (case invoke (SynchronizeWithPeeringdb obj)
             (AutonomousSystem_synchronize_with_peeringdb m obj) s of
        (Inl e, s1) \<Rightarrow> (Inl e, s1)
      | (Inr success, s1) \<Rightarrow>
          if truthy success
          then (Inr (Response HTTP_200_OK [(''status'', PyStr ''synchronized'')]), s1)
          else (Inr (Response HTTP_404_NOT_FOUND
                      [(''error'', PyStr ''peeringdb record not found'')]), s1))"

definition AutonomousSystemViewSet_find_potential_ix_peering_sessions ::
  "'w model_layer \<Rightarrow> request \<Rightarrow> autonomous_system \<Rightarrow> 'w state \<Rightarrow> (exn + http_response) \<times> 'w state" where
  "AutonomousSystemViewSet_find_potential_ix_peering_sessions m req obj s =
     (case invoke (FindPotentialIxPeeringSessions obj)
             (AutonomousSystem_find_potential_ix_peering_sessions m obj) s of
        (Inl e, s1) \<Rightarrow> (Inl e, s1)
      | (Inr ignored, s1) \<Rightarrow>
          (Inr (Response HTTP_200_OK [(''status'', PyStr ''done'')]), s1))"

subsection \<open>DirectPeeringSessionViewSet and InternetExchangePeeringSessionViewSet: clear\<close>

definition DirectPeeringSessionViewSet_clear ::
  "'w model_layer \<Rightarrow> request \<Rightarrow> direct_peering_session \<Rightarrow> 'w state \<Rightarrow> (exn + http_response) \<times> 'w state" where
  "DirectPeeringSessionViewSet_clear m req obj s =
     (case dps_router obj of
        None \<Rightarrow> (Inl (ServiceUnavailable ''No router available to clear session''), s)
      | Some router \<Rightarrow>
          (case invoke (ClearBgpSession router (DirectSession obj))
                  (Router_clear_bgp_session m router (DirectSession obj)) s of
             (Inl e, s1) \<Rightarrow> (Inl e, s1)
           | (Inr result, s1) \<Rightarrow>
               (Inr (Response HTTP_200_OK [(''result'', result)]), s1)))"

definition InternetExchangePeeringSessionViewSet_clear ::
  "'w model_layer \<Rightarrow> request \<Rightarrow> internet_exchange_peering_session \<Rightarrow> 'w state \<Rightarrow> (exn + http_response) \<times> 'w state" where
  "InternetExchangePeeringSessionViewSet_clear m req obj s =
     (case ix_router (internet_exchange obj) of
        None \<Rightarrow> (Inl (ServiceUnavailable ''No router available to clear session''), s)
      | Some router \<Rightarrow>
          (case invoke (ClearBgpSession router (IXSession obj))
                  (Router_clear_bgp_session m router (IXSession obj)) s of
             (Inl e, s1) \<Rightarrow> (Inl e, s1)
           | (Inr result, s1) \<Rightarrow>
               (Inr (Response HTTP_200_OK [(''result'', result)]), s1)))"

text \<open>The entry point \<open>clearSession\<close> of either session kind.\<close>

fun clearSession ::
  "'w model_layer \<Rightarrow> request \<Rightarrow> peering_session \<Rightarrow> 'w state \<Rightarrow> (exn + http_response) \<times> 'w state" where
  "clearSession m req (DirectSession d) s = DirectPeeringSessionViewSet_clear m req d s"
| "clearSession m req (IXSession x) s = InternetExchangePeeringSessionViewSet_clear m req x s"

subsection \<open>InternetExchangeViewSet\<close>

definition InternetExchangeViewSet_available_peers ::
  "'w model_layer \<Rightarrow> request \<Rightarrow> internet_exchange \<Rightarrow> 'w state \<Rightarrow> (exn + http_response) \<times> 'w state" where
  "InternetExchangeViewSet_available_peers m req obj s =
     (case invoke (GetAvailablePeers obj) (InternetExchange_get_available_peers m obj) s of
        (Inl e, s1) \<Rightarrow> (Inl e, s1)
      | (Inr available_peers, s1) \<Rightarrow>
          (case available_peers of
             None \<Rightarrow> (Inl (ServiceUnavailable ''No peers found.''), s1)
           | Some [] \<Rightarrow> (Inl (ServiceUnavailable ''No peers found.''), s1)
           | Some peers \<Rightarrow>
               (Inr (Response HTTP_200_OK
                      [(''available-peers'', PyList (map (PeerRecordSerializer m) peers))]), s1)))"

definition InternetExchangeViewSet_import_peering_sessions ::
  "'w model_layer \<Rightarrow> request \<Rightarrow> internet_exchange \<Rightarrow> 'w state \<Rightarrow> (exn + http_response) \<times> 'w state" where
  "InternetExchangeViewSet_import_peering_sessions m req obj s =
     (case invoke (ImportPeeringSessionsFromRouter obj)
             (InternetExchange_import_peering_sessions_from_router m obj) s of
        (Inl e, s1) \<Rightarrow> (Inl e, s1)
      | (Inr None, s1) \<Rightarrow>
          (Inl (ServiceUnavailable ''Cannot import peering sessions from router.''), s1)
      | (Inr (Some (as_count, session_count, ignored)), s1) \<Rightarrow>
          (Inr (Response HTTP_200_OK
                 [(''autonomous-system-count'', PyInt (int as_count)),
                  (''peering-session-count'', PyInt (int session_count)),
                  (''ignored-autonomous-systems'', PyList (map (\<lambda>n. PyInt (int n)) ignored))]),
           s1))"

definition InternetExchangeViewSet_configure_router ::
  "'w model_layer \<Rightarrow> request \<Rightarrow> internet_exchange \<Rightarrow> 'w state \<Rightarrow> (exn + http_response) \<times> 'w state" where
  "InternetExchangeViewSet_configure_router m req obj s =
     (case ix_router obj of
        None \<Rightarrow> (Inl (ServiceUnavailable ''No router available.''), s)
      | Some router \<Rightarrow>
          if \<not> has_perm req ''peering.deploy_configuration_internetexchange''
          then (Inr HttpResponseForbidden, s)
          else
            (case invoke (GenerateConfiguration (IXTarget obj))
                    (InternetExchange_generate_configuration m obj) s of
               (Inl e, s1) \<Rightarrow> (Inl e, s1)
             | (Inr config, s1) \<Rightarrow>
                 (case invoke
                         (SetNapalmConfiguration router config (request_method req \<notin> set SAFE_METHODS))
                         (Router_set_napalm_configuration m router config
                            (request_method req \<notin> set SAFE_METHODS)) s1 of
                    (Inl e, s2) \<Rightarrow> (Inl e, s2)
                  | (Inr (error, changes), s2) \<Rightarrow>
                      (Inr (Response HTTP_200_OK
                             [(''changed'', PyBool (\<not> truthy error)),
                              (''changes'', changes),
                              (''error'', error)]), s2))))"

subsection \<open>RouterViewSet\<close>

definition RouterViewSet_configure ::
  "'w model_layer \<Rightarrow> request \<Rightarrow> router \<Rightarrow> 'w state \<Rightarrow> (exn + http_response) \<times> 'w state" where
  "RouterViewSet_configure m req obj s =
     (if \<not> truthy (platform obj)
      then (Inl (ServiceUnavailable ''Unsupported router platform.''), s)
      else if \<not> has_perm req ''peering.deploy_configuration_router''
      then (Inr HttpResponseForbidden, s)
      else
        (case invoke (GenerateConfiguration (RouterTarget obj))
                (Router_generate_configuration m obj) s of
           (Inl e, s1) \<Rightarrow> (Inl e, s1)
         | (Inr config, s1) \<Rightarrow>
             (case invoke
                     (SetNapalmConfiguration obj config (request_method req \<notin> set SAFE_METHODS))
                     (Router_set_napalm_configuration m obj config
                        (request_method req \<notin> set SAFE_METHODS)) s1 of
                (Inl e, s2) \<Rightarrow> (Inl e, s2)
              | (Inr (error, changes), s2) \<Rightarrow>
                  (Inr (Response HTTP_200_OK
                         [(''changed'', PyBool (\<not> truthy error)),
                          (''changes'', changes),
                          (''error'', error)]), s2))))"

text \<open>
  The entry point \<open>deployConfiguration\<close> of either target kind, with the router that
  receives the push and the generation method each view calls.
\<close>

fun deployConfiguration ::
  "'w model_layer \<Rightarrow> request \<Rightarrow> target \<Rightarrow> 'w state \<Rightarrow> (exn + http_response) \<times> 'w state" where
  "deployConfiguration m req (RouterTarget r) s = RouterViewSet_configure m req r s"
| "deployConfiguration m req (IXTarget ix) s = InternetExchangeViewSet_configure_router m req ix s"

fun target_router :: "target \<Rightarrow> router option" where
  "target_router (RouterTarget r) = Some r"
| "target_router (IXTarget ix) = ix_router ix"

fun generate_configuration :: "'w model_layer \<Rightarrow> target \<Rightarrow> 'w \<Rightarrow> (exn + string) \<times> 'w" where
  "generate_configuration m (RouterTarget r) = Router_generate_configuration m r"
| "generate_configuration m (IXTarget ix) = InternetExchange_generate_configuration m ix"

text \<open>
  The checks a view makes before it generates the configuration: RouterViewSet.configure
  tests the platform and the permission \<^verbatim>\<open>peering.deploy_configuration_router\<close>,
  InternetExchangeViewSet.configure_router tests that a router is attached and the
  permission \<^verbatim>\<open>peering.deploy_configuration_internetexchange\<close>.
\<close>

fun deploy_checks_pass :: "request \<Rightarrow> target \<Rightarrow> bool" where
  "deploy_checks_pass req (RouterTarget r) =
     (truthy (platform r) \<and> has_perm req ''peering.deploy_configuration_router'')"
| "deploy_checks_pass req (IXTarget ix) =
     (ix_router ix \<noteq> None \<and> has_perm req ''peering.deploy_configuration_internetexchange'')"

section \<open>The model layer as the specification describes it\<close>

text \<open>
  \<^verbatim>\<open>peering/models.py\<close> and the registry client are not among the sources. Where a
  property depends on what a model method does, the method is modelled from the
  specification, over a database \<open>db\<close> and a snapshot of the registry's answers.
\<close>

record network_record =
  net_id :: nat
  net_name :: string
  net_irr_as_set :: string

record registry =
  LookupNetwork :: "nat \<Rightarrow> network_record option"
  netixlans :: "nat \<Rightarrow> (nat \<times> string) list"

record db =
  autonomous_systems :: "autonomous_system list"
  internet_exchanges :: "internet_exchange list"
  ix_peering_sessions :: "internet_exchange_peering_session list"

text \<open>
  Modelled from the spec: \<^verbatim>\<open>AutonomousSystem.synchronize_with_peeringdb\<close> is missing.
  Section 6: it "refreshes an AutonomousSystem's registry-linked fields; success=false if
  no registry record exists". The registry-linked fields are those of section 3: the
  name, the IRR AS-SET reference and the link to the registry record.
\<close>

definition refresh :: "network_record \<Rightarrow> autonomous_system \<Rightarrow> autonomous_system" where
  "refresh r a = a\<lparr>as_name := net_name r, irr_as_set := net_irr_as_set r,
                   peeringdb_net := Some (net_id r)\<rparr>"

definition synchronize_with_peeringdb ::
  "registry \<Rightarrow> autonomous_system \<Rightarrow> db \<Rightarrow> (exn + pyval) \<times> db" where
  "synchronize_with_peeringdb reg a d =
     (case LookupNetwork reg (asn a) of
        None \<Rightarrow> (Inr (PyBool False), d)
      | Some r \<Rightarrow>
          (Inr (PyBool True),
           d\<lparr>autonomous_systems :=
               map (\<lambda>x. if asn x = asn a then refresh r x else x) (autonomous_systems d)\<rparr>))"

text \<open>
  Modelled from the spec: \<^verbatim>\<open>AutonomousSystem.find_potential_ix_peering_sessions\<close> is
  missing. Section 4.3 (a): for each InternetExchange the operator shares with the target
  AS per the registry, a candidate session for every (exchange, peer IP) pair reported by
  the registry that has no existing InternetExchangePeeringSession with that exact
  (exchange, peer AS, peer IP) key; candidates are new sessions, disabled, observed state
  idle. Section 4.2: the common exchanges are the operator's configured exchanges that
  are among the peer's registry-reported memberships.
\<close>

definition session_key :: "internet_exchange_peering_session \<Rightarrow> nat \<times> nat \<times> string" where
  "session_key x = (ix_pk (internet_exchange x), ixs_asn x, ixs_ip_address x)"

definition candidate ::
  "internet_exchange \<Rightarrow> nat \<Rightarrow> string \<Rightarrow> internet_exchange_peering_session" where
  "candidate ix n ip =
     \<lparr>internet_exchange = ix, ixs_asn = n, ixs_ip_address = ip,
      enabled = False, ixs_bgp_state = Idle\<rparr>"

definition CommonExchanges :: "registry \<Rightarrow> db \<Rightarrow> nat \<Rightarrow> internet_exchange list" where
  "CommonExchanges reg d n =
     filter (\<lambda>ix. ix_pk ix \<in> fst ` set (netixlans reg n)) (internet_exchanges d)"

definition candidates :: "registry \<Rightarrow> db \<Rightarrow> nat \<Rightarrow> (internet_exchange \<times> nat \<times> string) list" where
  "candidates reg d n =
     concat (map (\<lambda>ix. map (\<lambda>(e, ip). (ix, n, ip))
                          (filter (\<lambda>(e, ip). e = ix_pk ix) (netixlans reg n)))
                 (CommonExchanges reg d n))"

fun add_candidates ::
  "(internet_exchange \<times> nat \<times> string) list \<Rightarrow> internet_exchange_peering_session list \<Rightarrow>
   internet_exchange_peering_session list" where
  "add_candidates [] xs = xs"
| "add_candidates ((ix, n, ip) # cs) xs =
     add_candidates cs
       (if (ix_pk ix, n, ip) \<in> session_key ` set xs then xs else xs @ [candidate ix n ip])"

definition find_potential_ix_peering_sessions ::
  "registry \<Rightarrow> autonomous_system \<Rightarrow> db \<Rightarrow> (exn + pyval) \<times> db" where
  "find_potential_ix_peering_sessions reg a d =
     (Inr PyNone,
      d\<lparr>ix_peering_sessions :=
          add_candidates (candidates reg d (asn a)) (ix_peering_sessions d)\<rparr>)"

text \<open>
  Modelled from the spec: \<^verbatim>\<open>InternetExchange.import_peering_sessions_from_router\<close> is
  missing. Section 6: it "imports sessions observed live on a router that aren't yet
  modeled, creating the missing AutonomousSystem records as needed and returning counts
  plus any peer ASes it could not resolve"; section 9: an AS is ignored when it is
  "present on device but absent from registry". \<open>device r\<close> is the list of (peer AS,
  peer IP) sessions that router \<open>r\<close> reports, \<open>None\<close> when it cannot be reached. The
  import has no result when the exchange has no router or the router cannot be reached.
\<close>

definition add_session :: "internet_exchange \<Rightarrow> nat \<Rightarrow> string \<Rightarrow> db \<Rightarrow> db" where
  "add_session ix n ip d =
     d\<lparr>ix_peering_sessions := ix_peering_sessions d @ [candidate ix n ip]\<rparr>"

definition add_autonomous_system :: "nat \<Rightarrow> network_record \<Rightarrow> db \<Rightarrow> db" where
  "add_autonomous_system n r d =
     d\<lparr>autonomous_systems := autonomous_systems d @
         [\<lparr>asn = n, as_name = net_name r, irr_as_set = net_irr_as_set r,
           peeringdb_net = Some (net_id r)\<rparr>]\<rparr>"

fun import_sessions ::
  "registry \<Rightarrow> internet_exchange \<Rightarrow> (nat \<times> string) list \<Rightarrow> nat \<times> nat \<times> nat list \<Rightarrow> db \<Rightarrow>
   (nat \<times> nat \<times> nat list) \<times> db" where
  "import_sessions reg ix [] acc d = (acc, d)"
| "import_sessions reg ix ((n, ip) # rest) (as_count, session_count, ignored) d =
     (if (ix_pk ix, n, ip) \<in> session_key ` set (ix_peering_sessions d)
      then import_sessions reg ix rest (as_count, session_count, ignored) d
      else if n \<in> asn ` set (autonomous_systems d)
      then import_sessions reg ix rest (as_count, Suc session_count, ignored)
             (add_session ix n ip d)
      else
        (case LookupNetwork reg n of
           None \<Rightarrow>
             import_sessions reg ix rest
               (as_count, session_count, if n \<in> set ignored then ignored else ignored @ [n]) d
         | Some r \<Rightarrow>
             import_sessions reg ix rest (Suc as_count, Suc session_count, ignored)
               (add_session ix n ip (add_autonomous_system n r d))))"

definition import_peering_sessions_from_router ::
  "registry \<Rightarrow> (router \<Rightarrow> (nat \<times> string) list option) \<Rightarrow> internet_exchange \<Rightarrow> db \<Rightarrow>
   (exn + (nat \<times> nat \<times> nat list) option) \<times> db" where
  "import_peering_sessions_from_router reg device ix d =
     (case ix_router ix of
        None \<Rightarrow> (Inr None, d)
      | Some r \<Rightarrow>
          (case device r of
             None \<Rightarrow> (Inr None, d)
           | Some observed \<Rightarrow>
               (case import_sessions reg ix observed (0, 0, []) d of
                  (result, d') \<Rightarrow> (Inr (Some result), d'))))"

section \<open>A concrete model layer\<close>

text \<open>
  Fixtures on which the theorems below are run: routers with and without a platform,
  exchanges with and without a router, a registry that knows AS 64501 at exchange 1,
  and a model layer in which the template of router 3 and of exchange 4 does not render,
  router 4 cannot be reached, router 5 is already up to date (empty diff, no error), and
  every other push gives a diff and no error. No method of this layer changes the
  database on a push.
\<close>

definition r1 :: router where
  "r1 = \<lparr>router_pk = 1, platform = PyStr ''junos''\<rparr>"

definition r2 :: router where
  "r2 = \<lparr>router_pk = 2, platform = PyStr []\<rparr>"

definition r3 :: router where
  "r3 = \<lparr>router_pk = 3, platform = PyStr ''junos''\<rparr>"

definition r4 :: router where
  "r4 = \<lparr>router_pk = 4, platform = PyStr ''junos''\<rparr>"

definition r5 :: router where
  "r5 = \<lparr>router_pk = 5, platform = PyStr ''junos''\<rparr>"

definition ix1 :: internet_exchange where
  "ix1 = \<lparr>ix_pk = 1, ix_router = Some r1\<rparr>"

definition ix2 :: internet_exchange where
  "ix2 = \<lparr>ix_pk = 2, ix_router = Some r2\<rparr>"

definition ix3 :: internet_exchange where
  "ix3 = \<lparr>ix_pk = 3, ix_router = None\<rparr>"

definition ix4 :: internet_exchange where
  "ix4 = \<lparr>ix_pk = 4, ix_router = Some r1\<rparr>"

definition ix5 :: internet_exchange where
  "ix5 = \<lparr>ix_pk = 5, ix_router = Some r4\<rparr>"

definition ix6 :: internet_exchange where
  "ix6 = \<lparr>ix_pk = 6, ix_router = Some r5\<rparr>"

definition as64501 :: autonomous_system where
  "as64501 = \<lparr>asn = 64501, as_name = ''old name'', irr_as_set = [], peeringdb_net = None\<rparr>"

definition as64999 :: autonomous_system where
  "as64999 = \<lparr>asn = 64999, as_name = ''unknown'', irr_as_set = [], peeringdb_net = None\<rparr>"

definition reg1 :: registry where
  "reg1 = \<lparr>LookupNetwork = (\<lambda>n. if n = 64501
                                 then Some \<lparr>net_id = 7, net_name = ''Peer One'',
                                            net_irr_as_set = ''AS-PEERONE''\<rparr>
                                 else None),
           netixlans = (\<lambda>n. if n = 64501 then [(1, ''192.0.2.10'')] else [])\<rparr>"

definition db1 :: db where
  "db1 = \<lparr>autonomous_systems = [as64501], internet_exchanges = [ix1, ix2, ix3],
          ix_peering_sessions = []\<rparr>"

definition device1 :: "router \<Rightarrow> (nat \<times> string) list option" where
  "device1 r = (if router_pk r = 1
                then Some [(64501, ''192.0.2.10''), (64999, ''192.0.2.99''), (64501, ''192.0.2.11'')]
                else None)"

definition layer1 :: "db model_layer" where
  "layer1 =
     \<lparr>AutonomousSystem_synchronize_with_peeringdb = synchronize_with_peeringdb reg1,
      AutonomousSystem_find_potential_ix_peering_sessions =
        find_potential_ix_peering_sessions reg1,
      BGPGroup_poll_peering_sessions = (\<lambda>g d. (Inr (PyBool (group_pk g = 1)), d)),
      InternetExchange_poll_peering_sessions =
        (\<lambda>ix d. (Inr (PyBool (ix_router ix \<noteq> None)), d)),
      InternetExchange_get_available_peers =
        (\<lambda>ix d. (Inr (if ix_pk ix = 1 then Some [PyInt 64501] else
                       if ix_pk ix = 2 then Some [] else None), d)),
      InternetExchange_import_peering_sessions_from_router =
        import_peering_sessions_from_router reg1 device1,
      InternetExchange_generate_configuration =
        (\<lambda>ix d. (if ix_pk ix = 4 then Inl (Raised ''UndefinedError'')
                  else Inr ''protocols bgp ix'', d)),
      Router_generate_configuration =
        (\<lambda>r d. (if router_pk r = 3 then Inl (Raised ''UndefinedError'')
                 else Inr ''protocols bgp'', d)),
      Router_set_napalm_configuration =
        (\<lambda>r config commit d.
           (if router_pk r = 4 then Inr (PyStr ''cannot connect'', PyNone)
            else if router_pk r = 5 then Inr (PyNone, PyStr [])
            else Inr (PyNone, PyStr ''+ neighbor 192.0.2.10''), d)),
      Router_clear_bgp_session = (\<lambda>r x d. (Inr (PyBool True), d)),
      PeerRecordSerializer = (\<lambda>v. v)\<rparr>"

definition get_request :: request where
  "get_request = \<lparr>request_method = ''GET'', has_perm = (\<lambda>p. True)\<rparr>"

definition post_request :: request where
  "post_request = \<lparr>request_method = ''POST'', has_perm = (\<lambda>p. True)\<rparr>"

definition dps1 :: direct_peering_session where
  "dps1 = \<lparr>dps_bgp_group = Some \<lparr>group_pk = 1\<rparr>, dps_router = None, dps_asn = 64501,
           dps_ip_address = ''192.0.2.20''\<rparr>"

definition dps2 :: direct_peering_session where
  "dps2 = \<lparr>dps_bgp_group = Some \<lparr>group_pk = 1\<rparr>, dps_router = Some r1, dps_asn = 64501,
           dps_ip_address = ''192.0.2.21''\<rparr>"

definition ixs1 :: internet_exchange_peering_session where
  "ixs1 = candidate ix1 64501 ''192.0.2.10''"

section \<open>Helper lemmas\<close>

lemma invoke_eq:
  "f (world s) = (r, w') \<Longrightarrow> invoke c f s = (r, \<lparr>world = w', calls = calls s @ [c]\<rparr>)"
  by (simp add: invoke_def)

lemma calls_start: "calls (start w) = []"
  by (simp add: start_def)

lemma world_start: "world (start w) = w"
  by (simp add: start_def)

lemma RouterViewSet_configure_cases:
  "RouterViewSet_configure m req r (start w) =
     (if \<not> truthy (platform r)
      then (Inl (ServiceUnavailable ''Unsupported router platform.''), start w)
      else if \<not> has_perm req ''peering.deploy_configuration_router''
      then (Inr HttpResponseForbidden, start w)
      else
        (case Router_generate_configuration m r w of
           (Inl e, w1) \<Rightarrow> (Inl e, \<lparr>world = w1, calls = [GenerateConfiguration (RouterTarget r)]\<rparr>)
         | (Inr config, w1) \<Rightarrow>
             (case Router_set_napalm_configuration m r config
                     (request_method req \<notin> set SAFE_METHODS) w1 of
                (Inl e, w2) \<Rightarrow>
                  (Inl e, \<lparr>world = w2, calls =
                     [GenerateConfiguration (RouterTarget r),
                      SetNapalmConfiguration r config (request_method req \<notin> set SAFE_METHODS)]\<rparr>)
              | (Inr (error, changes), w2) \<Rightarrow>
                  (Inr (Response HTTP_200_OK
                         [(''changed'', PyBool (\<not> truthy error)),
                          (''changes'', changes),
                          (''error'', error)]),
                   \<lparr>world = w2, calls =
                     [GenerateConfiguration (RouterTarget r),
                      SetNapalmConfiguration r config (request_method req \<notin> set SAFE_METHODS)]\<rparr>))))"
  by (simp add: RouterViewSet_configure_def invoke_def start_def
           split: prod.splits sum.splits)

lemma InternetExchangeViewSet_configure_router_cases:
  "InternetExchangeViewSet_configure_router m req ix (start w) =
     (case ix_router ix of
        None \<Rightarrow> (Inl (ServiceUnavailable ''No router available.''), start w)
      | Some r \<Rightarrow>
        if \<not> has_perm req ''peering.deploy_configuration_internetexchange''
        then (Inr HttpResponseForbidden, start w)
        else
        (case InternetExchange_generate_configuration m ix w of
           (Inl e, w1) \<Rightarrow> (Inl e, \<lparr>world = w1, calls = [GenerateConfiguration (IXTarget ix)]\<rparr>)
         | (Inr config, w1) \<Rightarrow>
             (case Router_set_napalm_configuration m r config
                     (request_method req \<notin> set SAFE_METHODS) w1 of
                (Inl e, w2) \<Rightarrow>
                  (Inl e, \<lparr>world = w2, calls =
                     [GenerateConfiguration (IXTarget ix),
                      SetNapalmConfiguration r config (request_method req \<notin> set SAFE_METHODS)]\<rparr>)
              | (Inr (error, changes), w2) \<Rightarrow>
                  (Inr (Response HTTP_200_OK
                         [(''changed'', PyBool (\<not> truthy error)),
                          (''changes'', changes),
                          (''error'', error)]),
                   \<lparr>world = w2, calls =
                     [GenerateConfiguration (IXTarget ix),
                      SetNapalmConfiguration r config (request_method req \<notin> set SAFE_METHODS)]\<rparr>))))"
  by (simp add: InternetExchangeViewSet_configure_router_def invoke_def start_def
           split: prod.splits sum.splits option.splits)

text \<open>The shape of every run of deployConfiguration.\<close>

lemma deploy_calls_shape:
  "calls (snd (deployConfiguration m req t (start w))) = [] \<or>
   (calls (snd (deployConfiguration m req t (start w))) = [GenerateConfiguration t] \<and>
    (\<exists>e. fst (generate_configuration m t w) = Inl e \<and>
         fst (deployConfiguration m req t (start w)) = Inl e)) \<or>
   (\<exists>r config. target_router t = Some r \<and>
      fst (generate_configuration m t w) = Inr config \<and>
      calls (snd (deployConfiguration m req t (start w))) =
        [GenerateConfiguration t,
         SetNapalmConfiguration r config (request_method req \<notin> set SAFE_METHODS)])"
proof (cases t)
  case (RouterTarget r)
  then show ?thesis
    by (simp add: RouterViewSet_configure_cases calls_start split: prod.splits sum.splits)
next
  case (IXTarget ix)
  then show ?thesis
    by (simp add: InternetExchangeViewSet_configure_router_cases calls_start
             split: prod.splits sum.splits option.splits)
qed

lemma deploy_response:
  assumes "fst (deployConfiguration m req t (start w)) = Inr (Response st body)"
  shows "\<exists>r config error changes.
           target_router t = Some r \<and>
           fst (generate_configuration m t w) = Inr config \<and>
           fst (Router_set_napalm_configuration m r config (request_method req \<notin> set SAFE_METHODS)
                  (snd (generate_configuration m t w))) = Inr (error, changes) \<and>
           st = HTTP_200_OK \<and>
           body = [(''changed'', PyBool (\<not> truthy error)), (''changes'', changes),
                   (''error'', error)] \<and>
           calls (snd (deployConfiguration m req t (start w))) =
             [GenerateConfiguration t,
              SetNapalmConfiguration r config (request_method req \<notin> set SAFE_METHODS)]"
proof (cases t)
  case (RouterTarget r)
  then show ?thesis
    using assms
    by (auto simp add: RouterViewSet_configure_cases calls_start
             split: prod.splits sum.splits if_splits)
next
  case (IXTarget ix)
  then show ?thesis
    using assms
    by (auto simp add: InternetExchangeViewSet_configure_router_cases calls_start
             split: prod.splits sum.splits option.splits if_splits)
qed

lemma deploy_forward:
  assumes "deploy_checks_pass req t"
    and "target_router t = Some r"
    and "generate_configuration m t w = (Inr config, w1)"
    and "Router_set_napalm_configuration m r config (request_method req \<notin> set SAFE_METHODS) w1 =
           (Inr (error, changes), w2)"
  shows "deployConfiguration m req t (start w) =
           (Inr (Response HTTP_200_OK
                  [(''changed'', PyBool (\<not> truthy error)), (''changes'', changes),
                   (''error'', error)]),
            \<lparr>world = w2,
             calls = [GenerateConfiguration t,
                      SetNapalmConfiguration r config
                        (request_method req \<notin> set SAFE_METHODS)]\<rparr>)"
proof (cases t)
  case (RouterTarget r')
  with assms show ?thesis
    by (simp add: RouterViewSet_configure_cases)
next
  case (IXTarget ix)
  with assms show ?thesis
    by (simp add: InternetExchangeViewSet_configure_router_cases)
qed

lemma deploy_world:
  "world (snd (deployConfiguration m req t (start w))) = w \<or>
   world (snd (deployConfiguration m req t (start w))) = snd (generate_configuration m t w) \<or>
   (\<exists>r config.
      world (snd (deployConfiguration m req t (start w))) =
        snd (Router_set_napalm_configuration m r config (request_method req \<notin> set SAFE_METHODS)
               (snd (generate_configuration m t w))))"
proof (cases t)
  case (RouterTarget r)
  then show ?thesis
    by (auto simp add: RouterViewSet_configure_cases world_start
             split: prod.splits sum.splits) (metis snd_conv)+
next
  case (IXTarget ix)
  then show ?thesis
    by (auto simp add: InternetExchangeViewSet_configure_router_cases world_start
             split: prod.splits sum.splits option.splits) (metis snd_conv)+
qed

lemma DirectPeeringSessionViewSet_clear_cases:
  "DirectPeeringSessionViewSet_clear m req d (start w) =
     (case dps_router d of
        None \<Rightarrow> (Inl (ServiceUnavailable ''No router available to clear session''), start w)
      | Some r \<Rightarrow>
          (case Router_clear_bgp_session m r (DirectSession d) w of
             (Inl e, w') \<Rightarrow> (Inl e, \<lparr>world = w', calls = [ClearBgpSession r (DirectSession d)]\<rparr>)
           | (Inr result, w') \<Rightarrow>
               (Inr (Response HTTP_200_OK [(''result'', result)]),
                \<lparr>world = w', calls = [ClearBgpSession r (DirectSession d)]\<rparr>)))"
  by (simp add: DirectPeeringSessionViewSet_clear_def invoke_def start_def
           split: prod.splits sum.splits option.splits)

lemma InternetExchangePeeringSessionViewSet_clear_cases:
  "InternetExchangePeeringSessionViewSet_clear m req x (start w) =
     (case ix_router (internet_exchange x) of
        None \<Rightarrow> (Inl (ServiceUnavailable ''No router available to clear session''), start w)
      | Some r \<Rightarrow>
          (case Router_clear_bgp_session m r (IXSession x) w of
             (Inl e, w') \<Rightarrow> (Inl e, \<lparr>world = w', calls = [ClearBgpSession r (IXSession x)]\<rparr>)
           | (Inr result, w') \<Rightarrow>
               (Inr (Response HTTP_200_OK [(''result'', result)]),
                \<lparr>world = w', calls = [ClearBgpSession r (IXSession x)]\<rparr>)))"
  by (simp add: InternetExchangePeeringSessionViewSet_clear_def invoke_def start_def
           split: prod.splits sum.splits option.splits)

lemma RouterViewSet_configure_platform_check:
  "\<not> truthy (platform r) \<Longrightarrow>
   RouterViewSet_configure m req r s =
     (Inl (ServiceUnavailable ''Unsupported router platform.''), s)"
  by (simp add: RouterViewSet_configure_def)

subsection \<open>Discovery of candidate sessions\<close>

lemma add_candidates_keys_mono:
  "session_key ` set xs \<subseteq> session_key ` set (add_candidates cs xs)"
proof (induction cs arbitrary: xs)
  case Nil
  then show ?case by simp
next
  case (Cons c cs)
  obtain ix n ip where c: "c = (ix, n, ip)" by (cases c)
  have "session_key ` set xs \<subseteq>
        session_key ` set (if (ix_pk ix, n, ip) \<in> session_key ` set xs then xs
                           else xs @ [candidate ix n ip])"
    by auto
  also have "\<dots> \<subseteq> session_key ` set (add_candidates (c # cs) xs)"
    using Cons.IH c by simp
  finally show ?case .
qed

lemma session_key_candidate: "session_key (candidate ix n ip) = (ix_pk ix, n, ip)"
  by (simp add: session_key_def candidate_def)

lemma add_candidates_covers:
  "(ix, n, ip) \<in> set cs \<Longrightarrow> (ix_pk ix, n, ip) \<in> session_key ` set (add_candidates cs xs)"
proof (induction cs arbitrary: xs)
  case Nil
  then show ?case by simp
next
  case (Cons c cs)
  obtain ix' n' ip' where c: "c = (ix', n', ip')" by (cases c)
  let ?ys = "if (ix_pk ix', n', ip') \<in> session_key ` set xs then xs
             else xs @ [candidate ix' n' ip']"
  show ?case
  proof (cases "(ix, n, ip) = c")
    case True
    then have "(ix_pk ix, n, ip) \<in> session_key ` set ?ys"
      using c by (auto simp add: session_key_candidate)
    then show ?thesis
      using add_candidates_keys_mono [of ?ys cs] c by auto
  next
    case False
    with Cons.prems have "(ix, n, ip) \<in> set cs" by simp
    then show ?thesis
      using Cons.IH c by simp
  qed
qed

lemma add_candidates_present:
  "\<forall>(ix, n, ip) \<in> set cs. (ix_pk ix, n, ip) \<in> session_key ` set xs \<Longrightarrow>
   add_candidates cs xs = xs"
  by (induction cs arbitrary: xs) auto

lemma add_candidates_idem:
  "add_candidates cs (add_candidates cs xs) = add_candidates cs xs"
  by (rule add_candidates_present) (auto intro: add_candidates_covers)

lemma add_candidates_appends:
  "\<exists>new. add_candidates cs xs = xs @ new \<and> distinct (map session_key new) \<and>
         session_key ` set new \<inter> session_key ` set xs = {}"
proof (induction cs arbitrary: xs)
  case Nil
  then show ?case by simp
next
  case (Cons c cs)
  obtain ix n ip where c: "c = (ix, n, ip)" by (cases c)
  show ?case
  proof (cases "(ix_pk ix, n, ip) \<in> session_key ` set xs")
    case True
    then show ?thesis using Cons.IH [of xs] c by simp
  next
    case False
    from Cons.IH [of "xs @ [candidate ix n ip]"]
    obtain new where new: "add_candidates cs (xs @ [candidate ix n ip]) =
                             (xs @ [candidate ix n ip]) @ new"
      and d: "distinct (map session_key new)"
      and i: "session_key ` set new \<inter> session_key ` set (xs @ [candidate ix n ip]) = {}"
      by blast
    have "add_candidates (c # cs) xs = xs @ (candidate ix n ip # new)"
      using False new c by simp
    moreover have "distinct (map session_key (candidate ix n ip # new))"
      using d i by auto
    moreover have "session_key ` set (candidate ix n ip # new) \<inter> session_key ` set xs = {}"
      using i False by (auto simp add: session_key_candidate)
    ultimately show ?thesis by blast
  qed
qed

lemma add_candidates_distinct:
  assumes "distinct (map session_key xs)"
  shows "distinct (map session_key (add_candidates cs xs))"
proof -
  from add_candidates_appends [of cs xs]
  obtain new where "add_candidates cs xs = xs @ new" "distinct (map session_key new)"
    "session_key ` set new \<inter> session_key ` set xs = {}"
    by blast
  with assms show ?thesis by auto
qed

lemma candidates_cong:
  "internet_exchanges d' = internet_exchanges d \<Longrightarrow> candidates reg d' n = candidates reg d n"
  by (simp add: candidates_def CommonExchanges_def)

lemma find_potential_view:
  assumes "AutonomousSystem_find_potential_ix_peering_sessions m =
             find_potential_ix_peering_sessions reg"
  shows "AutonomousSystemViewSet_find_potential_ix_peering_sessions m req a s =
           (Inr (Response HTTP_200_OK [(''status'', PyStr ''done'')]),
            \<lparr>world = (world s)\<lparr>ix_peering_sessions :=
                         add_candidates (candidates reg (world s) (asn a))
                           (ix_peering_sessions (world s))\<rparr>,
             calls = calls s @ [FindPotentialIxPeeringSessions a]\<rparr>)"
  using assms
  by (simp add: AutonomousSystemViewSet_find_potential_ix_peering_sessions_def invoke_def
        find_potential_ix_peering_sessions_def)

subsection \<open>Import of sessions from a router\<close>

lemma import_sessions_ignored_mono:
  "import_sessions reg ix obs (a, sc, ign) d = ((a', sc', ign'), d') \<Longrightarrow> set ign \<subseteq> set ign'"
proof (induction obs arbitrary: a sc ign d)
  case Nil
  then show ?case by simp
next
  case (Cons ob obs)
  obtain n ip where ob: "ob = (n, ip)" by (cases ob)
  from Cons.prems Cons.IH show ?case
    unfolding ob
    by (fastforce split: if_splits option.splits)
qed

lemma asn_add_session: "autonomous_systems (add_session ix n ip d) = autonomous_systems d"
  by (simp add: add_session_def)

lemma sessions_add_session:
  "ix_peering_sessions (add_session ix n ip d) = ix_peering_sessions d @ [candidate ix n ip]"
  by (simp add: add_session_def)

lemma asn_add_autonomous_system:
  "asn ` set (autonomous_systems (add_autonomous_system n r d)) =
     insert n (asn ` set (autonomous_systems d))"
  by (simp add: add_autonomous_system_def)

lemma length_add_autonomous_system:
  "length (autonomous_systems (add_autonomous_system n r d)) =
     Suc (length (autonomous_systems d))"
  by (simp add: add_autonomous_system_def)

lemma sessions_add_autonomous_system:
  "ix_peering_sessions (add_autonomous_system n r d) = ix_peering_sessions d"
  by (simp add: add_autonomous_system_def)

lemmas import_simps =
  asn_add_session sessions_add_session asn_add_autonomous_system
  sessions_add_autonomous_system session_key_candidate length_add_autonomous_system

lemma import_sessions_unresolved_ignored:
  assumes "import_sessions reg ix obs (a, sc, ign) d = ((a', sc', ign'), d')"
    and "(n, ip) \<in> set obs"
    and "LookupNetwork reg n = None"
    and "n \<notin> asn ` set (autonomous_systems d)"
    and "(ix_pk ix, n, ip) \<notin> session_key ` set (ix_peering_sessions d)"
  shows "n \<in> set ign'"
  using assms
proof (induction obs arbitrary: a sc ign d)
  case Nil
  then show ?case by simp
next
  case (Cons ob obs)
  obtain n0 ip0 where ob: "ob = (n0, ip0)" by (cases ob)
  show ?case
  proof (cases "(n, ip) = (n0, ip0)")
    case True
    then have n: "n0 = n" "ip0 = ip" by simp_all
    from Cons.prems
    have "import_sessions reg ix obs (a, sc, if n \<in> set ign then ign else ign @ [n]) d =
            ((a', sc', ign'), d')"
      unfolding ob n by (simp split del: if_split)
    from import_sessions_ignored_mono [OF this] show ?thesis by auto
  next
    case False
    with Cons.prems ob have mem: "(n, ip) \<in> set obs" by auto
    consider (seen) "(ix_pk ix, n0, ip0) \<in> session_key ` set (ix_peering_sessions d)"
      | (known) "(ix_pk ix, n0, ip0) \<notin> session_key ` set (ix_peering_sessions d)"
                "n0 \<in> asn ` set (autonomous_systems d)"
      | (ignored) "(ix_pk ix, n0, ip0) \<notin> session_key ` set (ix_peering_sessions d)"
                "n0 \<notin> asn ` set (autonomous_systems d)" "LookupNetwork reg n0 = None"
      | (created) r where "(ix_pk ix, n0, ip0) \<notin> session_key ` set (ix_peering_sessions d)"
                "n0 \<notin> asn ` set (autonomous_systems d)" "LookupNetwork reg n0 = Some r"
      by (cases "LookupNetwork reg n0") auto
    then show ?thesis
    proof cases
      case seen
      with Cons.prems ob
      have "import_sessions reg ix obs (a, sc, ign) d = ((a', sc', ign'), d')" by simp
      from Cons.IH [OF this mem Cons.prems(3) Cons.prems(4) Cons.prems(5)] show ?thesis .
    next
      case known
      with Cons.prems ob
      have run: "import_sessions reg ix obs (a, Suc sc, ign) (add_session ix n0 ip0 d) =
              ((a', sc', ign'), d')" by simp
      from known Cons.prems(4) have "n0 \<noteq> n" by auto
      with Cons.prems(4,5)
      have "n \<notin> asn ` set (autonomous_systems (add_session ix n0 ip0 d))"
        "(ix_pk ix, n, ip) \<notin> session_key ` set (ix_peering_sessions (add_session ix n0 ip0 d))"
        by (auto simp add: import_simps)
      from Cons.IH [OF run mem Cons.prems(3) this] show ?thesis .
    next
      case ignored
      with Cons.prems ob
      have "import_sessions reg ix obs (a, sc, if n0 \<in> set ign then ign else ign @ [n0]) d =
              ((a', sc', ign'), d')" by (simp split del: if_split)
      from Cons.IH [OF this mem Cons.prems(3) Cons.prems(4) Cons.prems(5)] show ?thesis .
    next
      case created
      with Cons.prems ob
      have run: "import_sessions reg ix obs (Suc a, Suc sc, ign)
               (add_session ix n0 ip0 (add_autonomous_system n0 r d)) =
              ((a', sc', ign'), d')" by simp
      from created Cons.prems(3) have "n0 \<noteq> n" by auto
      with Cons.prems(4,5)
      have "n \<notin> asn ` set (autonomous_systems
                              (add_session ix n0 ip0 (add_autonomous_system n0 r d)))"
        "(ix_pk ix, n, ip) \<notin> session_key ` set (ix_peering_sessions
                              (add_session ix n0 ip0 (add_autonomous_system n0 r d)))"
        by (auto simp add: import_simps)
      from Cons.IH [OF run mem Cons.prems(3) this] show ?thesis .
    qed
  qed
qed

lemma import_sessions_mono:
  "import_sessions reg ix obs acc d = (acc', d') \<Longrightarrow>
   asn ` set (autonomous_systems d) \<subseteq> asn ` set (autonomous_systems d') \<and>
   session_key ` set (ix_peering_sessions d) \<subseteq> session_key ` set (ix_peering_sessions d')"
proof (induction obs arbitrary: acc d)
  case Nil
  then show ?case by simp
next
  case (Cons ob obs)
  obtain n ip where ob: "ob = (n, ip)" by (cases ob)
  obtain a sc ign where acc: "acc = (a, sc, ign)" by (cases acc)
  from Cons.prems show ?case
    unfolding ob acc
    by (auto split: if_splits option.splits dest!: Cons.IH simp add: import_simps)
qed

lemma import_sessions_step:
  "\<exists>acc1 d1.
     import_sessions reg ix ((n0, ip0) # obs) acc d = import_sessions reg ix obs acc1 d1 \<and>
     asn ` set (autonomous_systems d) \<subseteq> asn ` set (autonomous_systems d1) \<and>
     (n0 \<in> asn ` set (autonomous_systems d) \<or> LookupNetwork reg n0 \<noteq> None \<longrightarrow>
        (ix_pk ix, n0, ip0) \<in> session_key ` set (ix_peering_sessions d1))"
proof -
  obtain a sc ign where acc: "acc = (a, sc, ign)" by (cases acc)
  show ?thesis
  proof (cases "(ix_pk ix, n0, ip0) \<in> session_key ` set (ix_peering_sessions d)")
    case True
    show ?thesis
      by (rule exI [of _ acc], rule exI [of _ d]) (simp add: acc True)
  next
    case unseen: False
    show ?thesis
    proof (cases "n0 \<in> asn ` set (autonomous_systems d)")
      case True
      show ?thesis
        by (rule exI [of _ "(a, Suc sc, ign)"], rule exI [of _ "add_session ix n0 ip0 d"])
           (simp add: acc unseen True import_simps)
    next
      case unknown: False
      show ?thesis
      proof (cases "LookupNetwork reg n0")
        case None
        show ?thesis
          by (rule exI [of _ "(a, sc, if n0 \<in> set ign then ign else ign @ [n0])"],
              rule exI [of _ d])
             (simp add: acc unseen unknown None split del: if_split)
      next
        case (Some r)
        show ?thesis
          by (rule exI [of _ "(Suc a, Suc sc, ign)"],
              rule exI [of _ "add_session ix n0 ip0 (add_autonomous_system n0 r d)"])
             (auto simp add: acc unseen unknown Some import_simps)
      qed
    qed
  qed
qed

lemma import_sessions_resolved_modelled:
  assumes "import_sessions reg ix obs acc d = (acc', d')"
    and "(n, ip) \<in> set obs"
    and "n \<in> asn ` set (autonomous_systems d) \<or> LookupNetwork reg n \<noteq> None"
  shows "(ix_pk ix, n, ip) \<in> session_key ` set (ix_peering_sessions d')"
  using assms
proof (induction obs arbitrary: acc d)
  case Nil
  then show ?case by simp
next
  case (Cons ob obs)
  obtain n0 ip0 where ob: "ob = (n0, ip0)" by (cases ob)
  from import_sessions_step [of reg ix n0 ip0 obs acc d] Cons.prems(1)
  obtain acc1 d1 where run: "import_sessions reg ix obs acc1 d1 = (acc', d')"
    and sub: "asn ` set (autonomous_systems d) \<subseteq> asn ` set (autonomous_systems d1)"
    and key: "n0 \<in> asn ` set (autonomous_systems d) \<or> LookupNetwork reg n0 \<noteq> None \<longrightarrow>
                (ix_pk ix, n0, ip0) \<in> session_key ` set (ix_peering_sessions d1)"
    unfolding ob by metis
  show ?case
  proof (cases "(n, ip) = (n0, ip0)")
    case True
    with key Cons.prems(3)
    have "(ix_pk ix, n, ip) \<in> session_key ` set (ix_peering_sessions d1)" by blast
    with import_sessions_mono [OF run] show ?thesis by auto
  next
    case False
    with Cons.prems(2) ob have mem: "(n, ip) \<in> set obs" by auto
    from Cons.prems(3) sub
    have "n \<in> asn ` set (autonomous_systems d1) \<or> LookupNetwork reg n \<noteq> None" by auto
    from Cons.IH [OF run mem this] show ?thesis .
  qed
qed

lemma import_sessions_counts:
  "import_sessions reg ix obs (a, sc, ign) d = ((a', sc', ign'), d') \<Longrightarrow>
   length (autonomous_systems d') + a = length (autonomous_systems d) + a' \<and>
   length (ix_peering_sessions d') + sc = length (ix_peering_sessions d) + sc'"
proof (induction obs arbitrary: a sc ign d)
  case Nil
  then show ?case by simp
next
  case (Cons ob obs)
  obtain n ip where ob: "ob = (n, ip)" by (cases ob)
  from Cons.prems show ?case
    unfolding ob
    by (auto split: if_splits option.splits dest!: Cons.IH simp add: import_simps)
qed

lemma import_view:
  assumes "InternetExchange_import_peering_sessions_from_router m ix w =
             (Inr (Some (a, sc, ign)), w')"
  shows "InternetExchangeViewSet_import_peering_sessions m req ix (start w) =
           (Inr (Response HTTP_200_OK
                  [(''autonomous-system-count'', PyInt (int a)),
                   (''peering-session-count'', PyInt (int sc)),
                   (''ignored-autonomous-systems'', PyList (map (\<lambda>n. PyInt (int n)) ign))]),
            \<lparr>world = w', calls = [ImportPeeringSessionsFromRouter ix]\<rparr>)"
  using assms
  by (simp add: InternetExchangeViewSet_import_peering_sessions_def invoke_def start_def)

lemma import_sessions_known:
  "(ix_pk ix, n, ip) \<notin> session_key ` set (ix_peering_sessions d) \<Longrightarrow>
   n \<in> asn ` set (autonomous_systems d) \<Longrightarrow>
   import_sessions reg ix ((n, ip) # rest) (a, sc, ign) d =
     import_sessions reg ix rest (a, Suc sc, ign) (add_session ix n ip d)"
  by simp

lemma import_sessions_ignored:
  "(ix_pk ix, n, ip) \<notin> session_key ` set (ix_peering_sessions d) \<Longrightarrow>
   n \<notin> asn ` set (autonomous_systems d) \<Longrightarrow>
   LookupNetwork reg n = None \<Longrightarrow> n \<notin> set ign \<Longrightarrow>
   import_sessions reg ix ((n, ip) # rest) (a, sc, ign) d =
     import_sessions reg ix rest (a, sc, ign @ [n]) d"
  by simp

section \<open>The claims\<close>

text \<open>
  C1. For both deployConfiguration entry points: every push that reaches the Device
  Gateway carries \<open>commit = (request.method not in SAFE_METHODS)\<close>. A request with a
  safe method (GET is one) that passes the view's checks, and whose generation and push
  return, calls
  \<open>set_napalm_configuration\<close> with \<open>commit = False\<close> and answers with the changes
  that push returned; a request with a method that is not safe does the same
  with \<open>commit = True\<close>. A GET response is produced only after a push with
  \<open>commit = False\<close>. When generation and a push with \<open>commit = False\<close> leave the
  world as it is (sections 4.4 and 4.1 of the specification), a request with a safe method
  leaves it as it is.
\<close>

theorem deployConfiguration_commit_flag:
  "(\<forall>r config commit.
      SetNapalmConfiguration r config commit
        \<in> set (calls (snd (deployConfiguration m req t (start w)))) \<longrightarrow>
      commit = (request_method req \<notin> set SAFE_METHODS))
   \<and> (\<forall>r config w1 error changes w2.
        request_method req \<in> set SAFE_METHODS \<and> deploy_checks_pass req t \<and>
        target_router t = Some r \<and>
        generate_configuration m t w = (Inr config, w1) \<and>
        Router_set_napalm_configuration m r config False w1 = (Inr (error, changes), w2) \<longrightarrow>
        deployConfiguration m req t (start w) =
          (Inr (Response HTTP_200_OK
                 [(''changed'', PyBool (\<not> truthy error)), (''changes'', changes),
                  (''error'', error)]),
           \<lparr>world = w2,
            calls = [GenerateConfiguration t, SetNapalmConfiguration r config False]\<rparr>))
   \<and> (\<forall>r config w1 error changes w2.
        request_method req \<notin> set SAFE_METHODS \<and> deploy_checks_pass req t \<and>
        target_router t = Some r \<and>
        generate_configuration m t w = (Inr config, w1) \<and>
        Router_set_napalm_configuration m r config True w1 = (Inr (error, changes), w2) \<longrightarrow>
        deployConfiguration m req t (start w) =
          (Inr (Response HTTP_200_OK
                 [(''changed'', PyBool (\<not> truthy error)), (''changes'', changes),
                  (''error'', error)]),
           \<lparr>world = w2,
            calls = [GenerateConfiguration t, SetNapalmConfiguration r config True]\<rparr>))
   \<and> (request_method req = ''GET'' \<longrightarrow>
        (\<forall>st body. fst (deployConfiguration m req t (start w)) = Inr (Response st body) \<longrightarrow>
           (\<exists>r config error changes.
              calls (snd (deployConfiguration m req t (start w))) =
                [GenerateConfiguration t, SetNapalmConfiguration r config False] \<and>
              fst (Router_set_napalm_configuration m r config False
                     (snd (generate_configuration m t w))) = Inr (error, changes) \<and>
              map_of body ''changes'' = Some changes)))
   \<and> (request_method req \<in> set SAFE_METHODS \<and> snd (generate_configuration m t w) = w \<and>
        (\<forall>r config. snd (Router_set_napalm_configuration m r config False w) = w) \<longrightarrow>
        world (snd (deployConfiguration m req t (start w))) = w)"
proof (intro conjI allI impI)
  fix r config commit
  assume "SetNapalmConfiguration r config commit
            \<in> set (calls (snd (deployConfiguration m req t (start w))))"
  with deploy_calls_shape [of m req t w]
  show "commit = (request_method req \<notin> set SAFE_METHODS)"
    by auto
next
  fix r config w1 error changes w2
  assume a: "request_method req \<in> set SAFE_METHODS \<and> deploy_checks_pass req t \<and>
        target_router t = Some r \<and>
        generate_configuration m t w = (Inr config, w1) \<and>
        Router_set_napalm_configuration m r config False w1 = (Inr (error, changes), w2)"
  then have safe: "(request_method req \<notin> set SAFE_METHODS) = False"
    by simp
  from a have "Router_set_napalm_configuration m r config
                 (request_method req \<notin> set SAFE_METHODS) w1 = (Inr (error, changes), w2)"
    unfolding safe by simp
  from deploy_forward [OF _ _ _ this] a
  show "deployConfiguration m req t (start w) =
          (Inr (Response HTTP_200_OK
                 [(''changed'', PyBool (\<not> truthy error)), (''changes'', changes),
                  (''error'', error)]),
           \<lparr>world = w2,
            calls = [GenerateConfiguration t, SetNapalmConfiguration r config False]\<rparr>)"
    unfolding safe by blast
next
  fix r config w1 error changes w2
  assume a: "request_method req \<notin> set SAFE_METHODS \<and> deploy_checks_pass req t \<and>
        target_router t = Some r \<and>
        generate_configuration m t w = (Inr config, w1) \<and>
        Router_set_napalm_configuration m r config True w1 = (Inr (error, changes), w2)"
  then have unsafe: "(request_method req \<notin> set SAFE_METHODS) = True"
    by simp
  from a have "Router_set_napalm_configuration m r config
                 (request_method req \<notin> set SAFE_METHODS) w1 = (Inr (error, changes), w2)"
    unfolding unsafe by simp
  from deploy_forward [OF _ _ _ this] a
  show "deployConfiguration m req t (start w) =
          (Inr (Response HTTP_200_OK
                 [(''changed'', PyBool (\<not> truthy error)), (''changes'', changes),
                  (''error'', error)]),
           \<lparr>world = w2,
            calls = [GenerateConfiguration t, SetNapalmConfiguration r config True]\<rparr>)"
    unfolding unsafe by blast
next
  fix st body
  assume get: "request_method req = ''GET''"
    and resp: "fst (deployConfiguration m req t (start w)) = Inr (Response st body)"
  from get have safe: "(request_method req \<notin> set SAFE_METHODS) = False"
    by (simp add: SAFE_METHODS_def)
  from deploy_response [OF resp] safe
  show "\<exists>r config error changes.
          calls (snd (deployConfiguration m req t (start w))) =
            [GenerateConfiguration t, SetNapalmConfiguration r config False] \<and>
          fst (Router_set_napalm_configuration m r config False
                 (snd (generate_configuration m t w))) = Inr (error, changes) \<and>
          map_of body ''changes'' = Some changes"
    by auto
next
  assume a: "request_method req \<in> set SAFE_METHODS \<and> snd (generate_configuration m t w) = w \<and>
        (\<forall>r config. snd (Router_set_napalm_configuration m r config False w) = w)"
  then have safe: "(request_method req \<notin> set SAFE_METHODS) = False"
    by simp
  from deploy_world [of m req t w] a
  show "world (snd (deployConfiguration m req t (start w))) = w"
    unfolding safe by auto
qed

theorem deployConfiguration_commit_flag_witness:
  "request_method get_request = ''GET'' \<and> request_method post_request \<notin> set SAFE_METHODS
   \<and> deploy_checks_pass get_request (RouterTarget r1)
   \<and> deploy_checks_pass get_request (IXTarget ix1)
   \<and> request_method get_request \<in> set SAFE_METHODS
   \<and> snd (generate_configuration layer1 (IXTarget ix1) db1) = db1
   \<and> world (snd (deployConfiguration layer1 get_request (IXTarget ix1) (start db1))) = db1
   \<and> deployConfiguration layer1 get_request (RouterTarget r1) (start db1) =
       (Inr (Response HTTP_200_OK
               [(''changed'', PyBool True), (''changes'', PyStr ''+ neighbor 192.0.2.10''),
                (''error'', PyNone)]),
        \<lparr>world = db1,
         calls = [GenerateConfiguration (RouterTarget r1),
                  SetNapalmConfiguration r1 ''protocols bgp'' False]\<rparr>)
   \<and> deployConfiguration layer1 get_request (IXTarget ix1) (start db1) =
       (Inr (Response HTTP_200_OK
               [(''changed'', PyBool True), (''changes'', PyStr ''+ neighbor 192.0.2.10''),
                (''error'', PyNone)]),
        \<lparr>world = db1,
         calls = [GenerateConfiguration (IXTarget ix1),
                  SetNapalmConfiguration r1 ''protocols bgp ix'' False]\<rparr>)
   \<and> deployConfiguration layer1 post_request (RouterTarget r1) (start db1) =
       (Inr (Response HTTP_200_OK
               [(''changed'', PyBool True), (''changes'', PyStr ''+ neighbor 192.0.2.10''),
                (''error'', PyNone)]),
        \<lparr>world = db1,
         calls = [GenerateConfiguration (RouterTarget r1),
                  SetNapalmConfiguration r1 ''protocols bgp'' True]\<rparr>)
   \<and> deployConfiguration layer1 post_request (IXTarget ix1) (start db1) =
       (Inr (Response HTTP_200_OK
               [(''changed'', PyBool True), (''changes'', PyStr ''+ neighbor 192.0.2.10''),
                (''error'', PyNone)]),
        \<lparr>world = db1,
         calls = [GenerateConfiguration (IXTarget ix1),
                  SetNapalmConfiguration r1 ''protocols bgp ix'' True]\<rparr>)"
proof -
  note preview = deployConfiguration_commit_flag [THEN conjunct2, THEN conjunct1, rule_format]
  note commit = deployConfiguration_commit_flag
                  [THEN conjunct2, THEN conjunct2, THEN conjunct1, rule_format]
  note readonly = deployConfiguration_commit_flag
                    [THEN conjunct2, THEN conjunct2, THEN conjunct2, THEN conjunct2, rule_format]
  have g: "request_method get_request = ''GET''"
    by (simp add: get_request_def)
  have safe: "request_method get_request \<in> set SAFE_METHODS"
    by (simp add: get_request_def SAFE_METHODS_def)
  have p: "request_method post_request \<notin> set SAFE_METHODS"
    by (simp add: post_request_def SAFE_METHODS_def)
  have cr: "deploy_checks_pass get_request (RouterTarget r1)"
    "deploy_checks_pass post_request (RouterTarget r1)"
    by (simp_all add: get_request_def post_request_def r1_def)
  have cx: "deploy_checks_pass get_request (IXTarget ix1)"
    "deploy_checks_pass post_request (IXTarget ix1)"
    by (simp_all add: get_request_def post_request_def ix1_def)
  have tr: "target_router (RouterTarget r1) = Some r1" "target_router (IXTarget ix1) = Some r1"
    by (simp_all add: ix1_def)
  have gr: "generate_configuration layer1 (RouterTarget r1) db1 = (Inr ''protocols bgp'', db1)"
    by (simp add: layer1_def r1_def)
  have gx: "generate_configuration layer1 (IXTarget ix1) db1 = (Inr ''protocols bgp ix'', db1)"
    by (simp add: layer1_def ix1_def)
  have push: "\<And>config commit.
      Router_set_napalm_configuration layer1 r1 config commit db1 =
        (Inr (PyNone, PyStr ''+ neighbor 192.0.2.10''), db1)"
    by (simp add: layer1_def r1_def)
  have run1: "deployConfiguration layer1 get_request (RouterTarget r1) (start db1) =
       (Inr (Response HTTP_200_OK
               [(''changed'', PyBool (\<not> truthy PyNone)),
                (''changes'', PyStr ''+ neighbor 192.0.2.10''), (''error'', PyNone)]),
        \<lparr>world = db1,
         calls = [GenerateConfiguration (RouterTarget r1),
                  SetNapalmConfiguration r1 ''protocols bgp'' False]\<rparr>)"
    using preview [where req = get_request and t = "RouterTarget r1" and r = r1 and m = layer1
                     and w = db1 and config = "''protocols bgp''" and ?w1.0 = db1
                     and error = PyNone and changes = "PyStr ''+ neighbor 192.0.2.10''"
                     and ?w2.0 = db1]
          safe cr tr gr push
    by simp
  have run2: "deployConfiguration layer1 get_request (IXTarget ix1) (start db1) =
       (Inr (Response HTTP_200_OK
               [(''changed'', PyBool (\<not> truthy PyNone)),
                (''changes'', PyStr ''+ neighbor 192.0.2.10''), (''error'', PyNone)]),
        \<lparr>world = db1,
         calls = [GenerateConfiguration (IXTarget ix1),
                  SetNapalmConfiguration r1 ''protocols bgp ix'' False]\<rparr>)"
    using preview [where req = get_request and t = "IXTarget ix1" and r = r1 and m = layer1
                     and w = db1 and config = "''protocols bgp ix''" and ?w1.0 = db1
                     and error = PyNone and changes = "PyStr ''+ neighbor 192.0.2.10''"
                     and ?w2.0 = db1]
          safe cx tr gx push
    by simp
  have run3: "deployConfiguration layer1 post_request (RouterTarget r1) (start db1) =
       (Inr (Response HTTP_200_OK
               [(''changed'', PyBool (\<not> truthy PyNone)),
                (''changes'', PyStr ''+ neighbor 192.0.2.10''), (''error'', PyNone)]),
        \<lparr>world = db1,
         calls = [GenerateConfiguration (RouterTarget r1),
                  SetNapalmConfiguration r1 ''protocols bgp'' True]\<rparr>)"
    using commit [where req = post_request and t = "RouterTarget r1" and r = r1 and m = layer1
                    and w = db1 and config = "''protocols bgp''" and ?w1.0 = db1
                    and error = PyNone and changes = "PyStr ''+ neighbor 192.0.2.10''"
                    and ?w2.0 = db1]
          p cr tr gr push
    by simp
  have run4: "deployConfiguration layer1 post_request (IXTarget ix1) (start db1) =
       (Inr (Response HTTP_200_OK
               [(''changed'', PyBool (\<not> truthy PyNone)),
                (''changes'', PyStr ''+ neighbor 192.0.2.10''), (''error'', PyNone)]),
        \<lparr>world = db1,
         calls = [GenerateConfiguration (IXTarget ix1),
                  SetNapalmConfiguration r1 ''protocols bgp ix'' True]\<rparr>)"
    using commit [where req = post_request and t = "IXTarget ix1" and r = r1 and m = layer1
                    and w = db1 and config = "''protocols bgp ix''" and ?w1.0 = db1
                    and error = PyNone and changes = "PyStr ''+ neighbor 192.0.2.10''"
                    and ?w2.0 = db1]
          p cx tr gx push
    by simp
  have pure: "snd (generate_configuration layer1 (IXTarget ix1) db1) = db1"
    unfolding gx by simp
  have dry: "\<And>r config. snd (Router_set_napalm_configuration layer1 r config False db1) = db1"
    by (simp add: layer1_def)
  have ro: "world (snd (deployConfiguration layer1 get_request (IXTarget ix1) (start db1))) = db1"
    using readonly [where req = get_request and t = "IXTarget ix1" and m = layer1 and w = db1]
          safe pure dry
    by blast
  show ?thesis
    unfolding run1 run2 run3 run4 using g p cr(1) cx(1) safe pure ro [unfolded run2] by simp
qed

text \<open>
  C2. For a BGPGroup and for an InternetExchange alike: when \<open>poll_peering_sessions\<close>
  returns, pollSessions raises ServiceUnavailable("Cannot update peering session states.")
  exactly when the returned value is falsy, and answers \<open>{"status": "success"}\<close> otherwise.
\<close>

theorem pollSessions_error_contract:
  assumes "poll_peering_sessions m sc (world s) = (Inr success, w')"
  shows "(fst (pollSessions m req sc s) =
            Inl (ServiceUnavailable ''Cannot update peering session states.'')) =
         (\<not> truthy success)
       \<and> (truthy success \<longrightarrow>
            fst (pollSessions m req sc s) =
              Inr (Response HTTP_200_OK [(''status'', PyStr ''success'')]))
       \<and> calls (snd (pollSessions m req sc s)) = calls s @ [PollPeeringSessions sc]"
proof (cases sc)
  case (BGPGroupScope g)
  with assms have "BGPGroup_poll_peering_sessions m g (world s) = (Inr success, w')"
    by simp
  then show ?thesis
    using BGPGroupScope
    by (simp add: BGPGroupViewSet_poll_peering_sessions_def invoke_eq)
next
  case (IXScope ix)
  with assms have "InternetExchange_poll_peering_sessions m ix (world s) = (Inr success, w')"
    by simp
  then show ?thesis
    using IXScope
    by (simp add: InternetExchangeViewSet_poll_peering_sessions_def invoke_eq)
qed

theorem pollSessions_error_contract_witness:
  "fst (pollSessions layer1 post_request (IXScope ix3) (start db1)) =
     Inl (ServiceUnavailable ''Cannot update peering session states.'')
   \<and> fst (pollSessions layer1 post_request (BGPGroupScope \<lparr>group_pk = 1\<rparr>) (start db1)) =
     Inr (Response HTTP_200_OK [(''status'', PyStr ''success'')])"
  using pollSessions_error_contract
          [of layer1 "IXScope ix3" "start db1" "PyBool False" db1 post_request]
        pollSessions_error_contract
          [of layer1 "BGPGroupScope \<lparr>group_pk = 1\<rparr>" "start db1" "PyBool True" db1 post_request]
  by (simp add: layer1_def ix3_def start_def)

text \<open>
  C3, as stated, fails: with no available peers (an empty list, or no registry link at
  all) the view raises ServiceUnavailable("No peers found.") instead of returning an
  empty result.
\<close>

theorem available_peers_empty_is_error:
  "fst (InternetExchangeViewSet_available_peers layer1 get_request ix2 (start db1)) =
     Inl (ServiceUnavailable ''No peers found.'')
   \<and> fst (InternetExchange_get_available_peers layer1 ix2 db1) = Inr (Some [])
   \<and> fst (InternetExchangeViewSet_available_peers layer1 get_request ix3 (start db1)) =
     Inl (ServiceUnavailable ''No peers found.'')
   \<and> fst (InternetExchange_get_available_peers layer1 ix3 db1) = Inr None"
  by (simp add: InternetExchangeViewSet_available_peers_def invoke_def start_def layer1_def
        ix2_def ix3_def)

text \<open>
  C3, amended. When \<open>get_available_peers\<close> returns, the view raises
  ServiceUnavailable("No peers found.") exactly when the result is \<open>None\<close> or empty, and
  answers with the serialized, non-empty list of peers otherwise.
\<close>

theorem available_peers_contract:
  assumes "InternetExchange_get_available_peers m ix w = (Inr available_peers, w')"
  shows "(fst (InternetExchangeViewSet_available_peers m req ix (start w)) =
            Inl (ServiceUnavailable ''No peers found.''))
         = (available_peers = None \<or> available_peers = Some [])
       \<and> (\<forall>p ps. available_peers = Some (p # ps) \<longrightarrow>
            fst (InternetExchangeViewSet_available_peers m req ix (start w)) =
              Inr (Response HTTP_200_OK
                     [(''available-peers'', PyList (map (PeerRecordSerializer m) (p # ps)))]))"
  using assms
  by (auto simp add: InternetExchangeViewSet_available_peers_def invoke_def start_def
           split: option.splits list.splits)

theorem available_peers_contract_witness:
  "fst (InternetExchangeViewSet_available_peers layer1 get_request ix2 (start db1)) =
     Inl (ServiceUnavailable ''No peers found.'')
   \<and> fst (InternetExchangeViewSet_available_peers layer1 get_request ix1 (start db1)) =
     Inr (Response HTTP_200_OK [(''available-peers'', PyList [PyInt 64501])])"
  using available_peers_contract [of layer1 ix2 db1 "Some []" db1 get_request]
        available_peers_contract [of layer1 ix1 db1 "Some [PyInt 64501]" db1 get_request]
  by (simp add: layer1_def ix1_def ix2_def)

text \<open>
  C4. The fail-fast platform check holds for RouterViewSet.configure
  (\<open>RouterViewSet_configure_platform_check\<close>) but InternetExchangeViewSet.configure_router
  has no such check: for exchange 2, whose router has an empty platform, a POST generates
  the configuration and calls \<open>set_napalm_configuration\<close> with \<open>commit = True\<close>, while
  the same router pushed through RouterViewSet.configure is refused before any call.
\<close>

theorem configure_router_skips_platform_check:
  "deployConfiguration layer1 post_request (IXTarget ix2) (start db1) =
     (Inr (Response HTTP_200_OK
             [(''changed'', PyBool True),
              (''changes'', PyStr ''+ neighbor 192.0.2.10''),
              (''error'', PyNone)]),
      \<lparr>world = db1,
       calls = [GenerateConfiguration (IXTarget ix2),
                SetNapalmConfiguration r2 ''protocols bgp ix'' True]\<rparr>)
   \<and> \<not> truthy (platform r2) \<and> ix_router ix2 = Some r2
   \<and> deployConfiguration layer1 post_request (RouterTarget r2) (start db1) =
     (Inl (ServiceUnavailable ''Unsupported router platform.''), start db1)"
  by (simp add: RouterViewSet_configure_cases InternetExchangeViewSet_configure_router_cases
        layer1_def r2_def ix2_def post_request_def SAFE_METHODS_def)

text \<open>
  C5. With the model method as the specification describes it, the method returns a
  boolean \<open>success\<close>, false exactly when the registry has no record for the AS.
  synchronizeWithRegistry answers the failure response (404, "peeringdb record not found")
  exactly in that case, leaving the database unchanged; when a record exists it answers
  \<open>{"status": "synchronized"}\<close> and the registry-linked fields of that AS are those of
  the record.
\<close>

theorem synchronizeWithRegistry_contract:
  assumes "AutonomousSystem_synchronize_with_peeringdb m = synchronize_with_peeringdb reg"
  shows "fst (AutonomousSystem_synchronize_with_peeringdb m a d) =
           Inr (PyBool (LookupNetwork reg (asn a) \<noteq> None))
       \<and> ((fst (AutonomousSystemViewSet_synchronize_with_peeringdb m req a (start d)) =
             Inr (Response HTTP_404_NOT_FOUND [(''error'', PyStr ''peeringdb record not found'')]))
          = (LookupNetwork reg (asn a) = None))
       \<and> (LookupNetwork reg (asn a) = None \<longrightarrow>
            world (snd (AutonomousSystemViewSet_synchronize_with_peeringdb m req a (start d))) = d)
       \<and> (\<forall>r. LookupNetwork reg (asn a) = Some r \<longrightarrow>
            fst (AutonomousSystemViewSet_synchronize_with_peeringdb m req a (start d)) =
              Inr (Response HTTP_200_OK [(''status'', PyStr ''synchronized'')]) \<and>
            autonomous_systems
              (world (snd (AutonomousSystemViewSet_synchronize_with_peeringdb m req a (start d)))) =
              map (\<lambda>x. if asn x = asn a
                        then x\<lparr>as_name := net_name r, irr_as_set := net_irr_as_set r,
                                peeringdb_net := Some (net_id r)\<rparr>
                        else x) (autonomous_systems d))"
  using assms
  by (auto simp add: AutonomousSystemViewSet_synchronize_with_peeringdb_def invoke_def start_def
        synchronize_with_peeringdb_def refresh_def HTTP_200_OK_def HTTP_404_NOT_FOUND_def
        split: option.splits)

theorem synchronizeWithRegistry_contract_witness:
  "fst (AutonomousSystemViewSet_synchronize_with_peeringdb layer1 post_request as64999 (start db1)) =
     Inr (Response HTTP_404_NOT_FOUND [(''error'', PyStr ''peeringdb record not found'')])
   \<and> LookupNetwork reg1 (asn as64999) = None
   \<and> AutonomousSystemViewSet_synchronize_with_peeringdb layer1 post_request as64501 (start db1) =
       (Inr (Response HTTP_200_OK [(''status'', PyStr ''synchronized'')]),
        \<lparr>world = db1\<lparr>autonomous_systems :=
                      [\<lparr>asn = 64501, as_name = ''Peer One'', irr_as_set = ''AS-PEERONE'',
                        peeringdb_net = Some 7\<rparr>]\<rparr>,
         calls = [SynchronizeWithPeeringdb as64501]\<rparr>)"
  using synchronizeWithRegistry_contract
          [where m = layer1 and reg = reg1 and req = post_request and a = as64999 and d = db1]
        synchronizeWithRegistry_contract
          [where m = layer1 and reg = reg1 and req = post_request and a = as64501 and d = db1]
  by (simp add: AutonomousSystemViewSet_synchronize_with_peeringdb_def invoke_def start_def
        synchronize_with_peeringdb_def refresh_def layer1_def reg1_def as64999_def as64501_def
        db1_def)

text \<open>
  C6. For both deployConfiguration entry points: if configuration generation raises, no
  call to \<open>set_napalm_configuration\<close> is made and the exception is the outcome; and
  whenever a push is made, generation has returned before it, and the text pushed is the
  text generated.
\<close>

theorem generation_failure_never_reaches_gateway:
  "(\<forall>e. fst (generate_configuration m t w) = Inl e \<longrightarrow>
        (\<forall>c \<in> set (calls (snd (deployConfiguration m req t (start w)))).
           \<not> is_set_napalm_configuration c) \<and>
        (GenerateConfiguration t \<in> set (calls (snd (deployConfiguration m req t (start w)))) \<longrightarrow>
           fst (deployConfiguration m req t (start w)) = Inl e))
   \<and> (\<forall>r config commit.
        SetNapalmConfiguration r config commit
          \<in> set (calls (snd (deployConfiguration m req t (start w)))) \<longrightarrow>
        fst (generate_configuration m t w) = Inr config \<and>
        calls (snd (deployConfiguration m req t (start w))) =
          [GenerateConfiguration t, SetNapalmConfiguration r config commit])"
  using deploy_calls_shape [of m req t w]
  by auto

theorem generation_failure_never_reaches_gateway_witness:
  "fst (generate_configuration layer1 (IXTarget ix4) db1) =
     Inl (Raised ''UndefinedError'')
   \<and> deployConfiguration layer1 post_request (IXTarget ix4) (start db1) =
       (Inl (Raised ''UndefinedError''),
        \<lparr>world = db1, calls = [GenerateConfiguration (IXTarget ix4)]\<rparr>)
   \<and> SetNapalmConfiguration r1 ''protocols bgp'' True
       \<in> set (calls (snd (deployConfiguration layer1 post_request (RouterTarget r1) (start db1))))
   \<and> fst (generate_configuration layer1 (RouterTarget r1) db1) = Inr ''protocols bgp''"
  using generation_failure_never_reaches_gateway
          [of layer1 "IXTarget ix4" db1 post_request]
        generation_failure_never_reaches_gateway
          [of layer1 "RouterTarget r1" db1 post_request]
  by (simp add: RouterViewSet_configure_cases InternetExchangeViewSet_configure_router_cases
        layer1_def r1_def ix4_def post_request_def SAFE_METHODS_def)

text \<open>
  C7, as stated, fails for a DirectPeeringSession: the view reads the router of the
  session itself, not of the owning group. Two sessions of the same BGP group, one
  without and one with a router of its own, are refused and cleared respectively.
\<close>

theorem clearSession_ignores_owning_group:
  "dps_bgp_group dps1 = dps_bgp_group dps2
   \<and> clearSession layer1 get_request (DirectSession dps1) (start db1) =
       (Inl (ServiceUnavailable ''No router available to clear session''), start db1)
   \<and> clearSession layer1 get_request (DirectSession dps2) (start db1) =
       (Inr (Response HTTP_200_OK [(''result'', PyBool True)]),
        \<lparr>world = db1, calls = [ClearBgpSession r1 (DirectSession dps2)]\<rparr>)"
  by (simp add: DirectPeeringSessionViewSet_clear_cases dps1_def dps2_def layer1_def)

text \<open>
  C7, amended. clearSession raises ServiceUnavailable("No router available to clear
  session") without calling \<open>clear_bgp_session\<close> exactly when the router the view reads
  is absent: the router of the session itself for a DirectPeeringSession, the router of
  its exchange for an InternetExchangePeeringSession. With a router, the response carries
  the result of \<open>clear_bgp_session\<close> on that router for that session.
\<close>

theorem clearSession_router_read_by_view:
  "((fst (clearSession m req (DirectSession d) (start w)) =
       Inl (ServiceUnavailable ''No router available to clear session'') \<and>
     (\<forall>c \<in> set (calls (snd (clearSession m req (DirectSession d) (start w)))).
        \<not> is_clear_bgp_session c))
    = (dps_router d = None))
   \<and> (\<forall>r result w'.
        dps_router d = Some r \<and>
        Router_clear_bgp_session m r (DirectSession d) w = (Inr result, w') \<longrightarrow>
        clearSession m req (DirectSession d) (start w) =
          (Inr (Response HTTP_200_OK [(''result'', result)]),
           \<lparr>world = w', calls = [ClearBgpSession r (DirectSession d)]\<rparr>))
   \<and> ((fst (clearSession m req (IXSession x) (start w)) =
         Inl (ServiceUnavailable ''No router available to clear session'') \<and>
       (\<forall>c \<in> set (calls (snd (clearSession m req (IXSession x) (start w)))).
          \<not> is_clear_bgp_session c))
      = (ix_router (internet_exchange x) = None))
   \<and> (\<forall>r result w'.
        ix_router (internet_exchange x) = Some r \<and>
        Router_clear_bgp_session m r (IXSession x) w = (Inr result, w') \<longrightarrow>
        clearSession m req (IXSession x) (start w) =
          (Inr (Response HTTP_200_OK [(''result'', result)]),
           \<lparr>world = w', calls = [ClearBgpSession r (IXSession x)]\<rparr>))"
  by (auto simp add: DirectPeeringSessionViewSet_clear_cases
        InternetExchangePeeringSessionViewSet_clear_cases calls_start
        split: option.splits prod.splits sum.splits)

theorem clearSession_router_read_by_view_witness:
  "dps_router dps1 = None
   \<and> clearSession layer1 get_request (DirectSession dps1) (start db1) =
       (Inl (ServiceUnavailable ''No router available to clear session''), start db1)
   \<and> dps_router dps2 = Some r1
   \<and> clearSession layer1 get_request (DirectSession dps2) (start db1) =
       (Inr (Response HTTP_200_OK [(''result'', PyBool True)]),
        \<lparr>world = db1, calls = [ClearBgpSession r1 (DirectSession dps2)]\<rparr>)
   \<and> ix_router (internet_exchange ixs1) = Some r1
   \<and> clearSession layer1 get_request (IXSession ixs1) (start db1) =
       (Inr (Response HTTP_200_OK [(''result'', PyBool True)]),
        \<lparr>world = db1, calls = [ClearBgpSession r1 (IXSession ixs1)]\<rparr>)
   \<and> ix_router (internet_exchange (candidate ix3 64501 ''192.0.2.30'')) = None
   \<and> clearSession layer1 get_request (IXSession (candidate ix3 64501 ''192.0.2.30''))
       (start db1) =
       (Inl (ServiceUnavailable ''No router available to clear session''), start db1)"
  using clearSession_router_read_by_view [of layer1 get_request dps1 db1 ixs1]
        clearSession_router_read_by_view
          [of layer1 get_request dps2 db1 "candidate ix3 64501 ''192.0.2.30''"]
  by (simp add: DirectPeeringSessionViewSet_clear_cases
        InternetExchangePeeringSessionViewSet_clear_cases
        dps1_def dps2_def ixs1_def candidate_def ix1_def ix3_def layer1_def)

text \<open>
  C8. With the model method as the specification describes it: each run of
  findPotentialSessions answers \<open>{"status": "done"}\<close>; a second run on the database the
  first one leaves changes nothing; the sessions a run creates have pairwise distinct
  (exchange, peer AS, peer IP) keys that no existing session has, so distinct keys stay
  distinct.
\<close>

theorem findPotentialSessions_idempotent:
  assumes "AutonomousSystem_find_potential_ix_peering_sessions m =
             find_potential_ix_peering_sessions reg"
    and "once = AutonomousSystemViewSet_find_potential_ix_peering_sessions m req a (start d)"
    and "twice = AutonomousSystemViewSet_find_potential_ix_peering_sessions m req a (snd once)"
  shows "fst once = Inr (Response HTTP_200_OK [(''status'', PyStr ''done'')])
       \<and> fst twice = Inr (Response HTTP_200_OK [(''status'', PyStr ''done'')])
       \<and> world (snd twice) = world (snd once)
       \<and> (\<exists>new. ix_peering_sessions (world (snd once)) = ix_peering_sessions d @ new \<and>
                 distinct (map session_key new) \<and>
                 session_key ` set new \<inter> session_key ` set (ix_peering_sessions d) = {})
       \<and> (distinct (map session_key (ix_peering_sessions d)) \<longrightarrow>
            distinct (map session_key (ix_peering_sessions (world (snd twice)))))"
proof -
  let ?cs = "candidates reg d (asn a)"
  let ?d1 = "d\<lparr>ix_peering_sessions := add_candidates ?cs (ix_peering_sessions d)\<rparr>"
  have once: "once = (Inr (Response HTTP_200_OK [(''status'', PyStr ''done'')]),
                      \<lparr>world = ?d1, calls = [FindPotentialIxPeeringSessions a]\<rparr>)"
    using assms(2) by (simp add: find_potential_view [OF assms(1)] start_def)
  have cs: "candidates reg ?d1 (asn a) = ?cs"
    by (rule candidates_cong) simp
  have twice: "twice = (Inr (Response HTTP_200_OK [(''status'', PyStr ''done'')]),
                        \<lparr>world = ?d1, calls = [FindPotentialIxPeeringSessions a,
                                                 FindPotentialIxPeeringSessions a]\<rparr>)"
    using assms(3) by (simp add: find_potential_view [OF assms(1)] once cs add_candidates_idem)
  show ?thesis
    using add_candidates_appends [of ?cs "ix_peering_sessions d"]
          add_candidates_distinct [of "ix_peering_sessions d" ?cs]
    by (simp add: once twice)
qed

theorem findPotentialSessions_idempotent_witness:
  "AutonomousSystemViewSet_find_potential_ix_peering_sessions layer1 post_request as64501
     (start db1) =
     (Inr (Response HTTP_200_OK [(''status'', PyStr ''done'')]),
      \<lparr>world = db1\<lparr>ix_peering_sessions := [candidate ix1 64501 ''192.0.2.10'']\<rparr>,
       calls = [FindPotentialIxPeeringSessions as64501]\<rparr>)
   \<and> world (snd (AutonomousSystemViewSet_find_potential_ix_peering_sessions layer1 post_request
        as64501
        (snd (AutonomousSystemViewSet_find_potential_ix_peering_sessions layer1 post_request
                as64501 (start db1))))) =
     db1\<lparr>ix_peering_sessions := [candidate ix1 64501 ''192.0.2.10'']\<rparr>"
proof -
  have l: "AutonomousSystem_find_potential_ix_peering_sessions layer1 =
             find_potential_ix_peering_sessions reg1"
    by (simp add: layer1_def)
  have c: "candidates reg1 db1 (asn as64501) = [(ix1, 64501, ''192.0.2.10'')]"
    by (simp add: candidates_def CommonExchanges_def reg1_def db1_def as64501_def
          ix1_def ix2_def ix3_def)
  have e: "ix_peering_sessions db1 = []"
    by (simp add: db1_def)
  have o: "AutonomousSystemViewSet_find_potential_ix_peering_sessions layer1 post_request as64501
             (start db1) =
           (Inr (Response HTTP_200_OK [(''status'', PyStr ''done'')]),
            \<lparr>world = db1\<lparr>ix_peering_sessions := [candidate ix1 64501 ''192.0.2.10'']\<rparr>,
             calls = [FindPotentialIxPeeringSessions as64501]\<rparr>)"
    by (simp add: find_potential_view [OF l] start_def c e)
  from findPotentialSessions_idempotent [OF l refl refl, of post_request as64501 db1] o
  show ?thesis by simp
qed

text \<open>
  C9. With the model method as the specification describes it, for an exchange whose
  router reports its sessions: importSessionsFromRouter answers exactly the three
  components (number of AutonomousSystems created, number of sessions created, ignored
  peer ASes), the two counts being the numbers of records added; every observed,
  not yet modelled session of a peer AS that is neither known locally nor to the registry
  has its AS in the ignored list, and every observed session of a resolvable peer AS is
  modelled afterwards, so one unresolvable AS does not fail the batch.
\<close>

theorem importSessionsFromRouter_partial_failure:
  assumes "InternetExchange_import_peering_sessions_from_router m =
             import_peering_sessions_from_router reg device"
    and "ix_router ix = Some r" and "device r = Some observed"
  shows "\<exists>a sc ign d'.
           InternetExchangeViewSet_import_peering_sessions m req ix (start d) =
             (Inr (Response HTTP_200_OK
                    [(''autonomous-system-count'', PyInt (int a)),
                     (''peering-session-count'', PyInt (int sc)),
                     (''ignored-autonomous-systems'', PyList (map (\<lambda>n. PyInt (int n)) ign))]),
              \<lparr>world = d', calls = [ImportPeeringSessionsFromRouter ix]\<rparr>) \<and>
           length (autonomous_systems d') = length (autonomous_systems d) + a \<and>
           length (ix_peering_sessions d') = length (ix_peering_sessions d) + sc \<and>
           (\<forall>(n, ip) \<in> set observed.
              LookupNetwork reg n = None \<and> n \<notin> asn ` set (autonomous_systems d) \<and>
              (ix_pk ix, n, ip) \<notin> session_key ` set (ix_peering_sessions d) \<longrightarrow>
              n \<in> set ign) \<and>
           (\<forall>(n, ip) \<in> set observed.
              n \<in> asn ` set (autonomous_systems d) \<or> LookupNetwork reg n \<noteq> None \<longrightarrow>
              (ix_pk ix, n, ip) \<in> session_key ` set (ix_peering_sessions d'))"
proof -
  obtain a sc ign d' where run: "import_sessions reg ix observed (0, 0, []) d = ((a, sc, ign), d')"
    by (metis prod.exhaust)
  then have "InternetExchange_import_peering_sessions_from_router m ix d =
               (Inr (Some (a, sc, ign)), d')"
    using assms by (simp add: import_peering_sessions_from_router_def)
  note view = import_view [OF this, of req]
  from import_sessions_counts [OF run]
  have counts: "length (autonomous_systems d') = length (autonomous_systems d) + a"
    "length (ix_peering_sessions d') = length (ix_peering_sessions d) + sc"
    by simp_all
  have ignored: "\<forall>(n, ip) \<in> set observed.
              LookupNetwork reg n = None \<and> n \<notin> asn ` set (autonomous_systems d) \<and>
              (ix_pk ix, n, ip) \<notin> session_key ` set (ix_peering_sessions d) \<longrightarrow>
              n \<in> set ign"
    using import_sessions_unresolved_ignored [OF run] by blast
  have created: "\<forall>(n, ip) \<in> set observed.
              n \<in> asn ` set (autonomous_systems d) \<or> LookupNetwork reg n \<noteq> None \<longrightarrow>
              (ix_pk ix, n, ip) \<in> session_key ` set (ix_peering_sessions d')"
    using import_sessions_resolved_modelled [OF run] by blast
  from view counts ignored created show ?thesis by blast
qed

theorem importSessionsFromRouter_partial_failure_witness:
  "ix_router ix1 = Some r1
   \<and> device1 r1 = Some [(64501, ''192.0.2.10''), (64999, ''192.0.2.99''), (64501, ''192.0.2.11'')]
   \<and> LookupNetwork reg1 64999 = None
   \<and> InternetExchangeViewSet_import_peering_sessions layer1 post_request ix1 (start db1) =
       (Inr (Response HTTP_200_OK
               [(''autonomous-system-count'', PyInt 0),
                (''peering-session-count'', PyInt 2),
                (''ignored-autonomous-systems'', PyList [PyInt 64999])]),
        \<lparr>world = add_session ix1 64501 ''192.0.2.11'' (add_session ix1 64501 ''192.0.2.10'' db1),
         calls = [ImportPeeringSessionsFromRouter ix1]\<rparr>)"
proof -
  let ?d1 = "add_session ix1 64501 ''192.0.2.10'' db1"
  let ?d2 = "add_session ix1 64501 ''192.0.2.11'' ?d1"
  have l: "InternetExchange_import_peering_sessions_from_router layer1 =
             import_peering_sessions_from_router reg1 device1"
    by (simp add: layer1_def)
  have r: "ix_router ix1 = Some r1"
    by (simp add: ix1_def)
  have dv: "device1 r1 =
             Some [(64501, ''192.0.2.10''), (64999, ''192.0.2.99''), (64501, ''192.0.2.11'')]"
    by (simp add: device1_def r1_def)
  have none: "LookupNetwork reg1 64999 = None"
    by (simp add: reg1_def)
  have s0: "ix_peering_sessions db1 = []"
    and a0: "asn ` set (autonomous_systems db1) = {64501}"
    by (simp_all add: db1_def as64501_def)
  have step1: "import_sessions reg1 ix1
                 [(64501, ''192.0.2.10''), (64999, ''192.0.2.99''), (64501, ''192.0.2.11'')]
                 (0, 0, []) db1 =
               import_sessions reg1 ix1 [(64999, ''192.0.2.99''), (64501, ''192.0.2.11'')]
                 (0, Suc 0, []) ?d1"
    by (rule import_sessions_known) (simp_all add: s0 a0)
  have step2: "import_sessions reg1 ix1 [(64999, ''192.0.2.99''), (64501, ''192.0.2.11'')]
                 (0, Suc 0, []) ?d1 =
               import_sessions reg1 ix1 [(64501, ''192.0.2.11'')] (0, Suc 0, [] @ [64999]) ?d1"
    by (rule import_sessions_ignored) (simp_all add: s0 a0 none import_simps)
  have step3: "import_sessions reg1 ix1 [(64501, ''192.0.2.11'')] (0, Suc 0, [] @ [64999]) ?d1 =
               import_sessions reg1 ix1 [] (0, Suc (Suc 0), [] @ [64999]) ?d2"
    by (rule import_sessions_known) (simp_all add: s0 a0 import_simps)
  have run: "import_sessions reg1 ix1
               [(64501, ''192.0.2.10''), (64999, ''192.0.2.99''), (64501, ''192.0.2.11'')]
               (0, 0, []) db1 = ((0, 2, [64999]), ?d2)"
    unfolding step1 step2 step3 by (simp add: numeral_2_eq_2)
  have "InternetExchange_import_peering_sessions_from_router layer1 ix1 db1 =
          (Inr (Some (0, 2, [64999])), ?d2)"
    by (simp only: l import_peering_sessions_from_router_def r dv run option.case prod.case)
  from import_view [OF this, of post_request]
       importSessionsFromRouter_partial_failure [OF l r dv, of post_request db1] r dv none
  show ?thesis by simp
qed

text \<open>
  C10. For both deployConfiguration entry points: whenever the view's checks pass and
  generation and the push return, the response is
  \<open>{"changed": not error, "changes": changes, "error": error}\<close> for the pair
  \<open>(error, changes)\<close> the push returned, so a push without error is reported as changed
  whatever its diff, and a push with an error as unchanged; and every response of
  deployConfiguration has this form.
\<close>

theorem deployConfiguration_changed_is_not_error:
  "(\<forall>r config w1 error changes w2.
      deploy_checks_pass req t \<and> target_router t = Some r \<and>
      generate_configuration m t w = (Inr config, w1) \<and>
      Router_set_napalm_configuration m r config (request_method req \<notin> set SAFE_METHODS) w1 =
        (Inr (error, changes), w2) \<longrightarrow>
      fst (deployConfiguration m req t (start w)) =
        Inr (Response HTTP_200_OK
               [(''changed'', PyBool (\<not> truthy error)), (''changes'', changes),
                (''error'', error)]))
   \<and> (\<forall>st body.
        fst (deployConfiguration m req t (start w)) = Inr (Response st body) \<longrightarrow>
        (\<exists>r config error changes.
           target_router t = Some r \<and>
           fst (generate_configuration m t w) = Inr config \<and>
           fst (Router_set_napalm_configuration m r config (request_method req \<notin> set SAFE_METHODS)
                  (snd (generate_configuration m t w))) = Inr (error, changes) \<and>
           body = [(''changed'', PyBool (\<not> truthy error)), (''changes'', changes),
                   (''error'', error)]))"
proof (intro conjI allI impI)
  fix r config w1 error changes w2
  assume "deploy_checks_pass req t \<and> target_router t = Some r \<and>
      generate_configuration m t w = (Inr config, w1) \<and>
      Router_set_napalm_configuration m r config (request_method req \<notin> set SAFE_METHODS) w1 =
        (Inr (error, changes), w2)"
  then have "deployConfiguration m req t (start w) =
           (Inr (Response HTTP_200_OK
                  [(''changed'', PyBool (\<not> truthy error)), (''changes'', changes),
                   (''error'', error)]),
            \<lparr>world = w2,
             calls = [GenerateConfiguration t,
                      SetNapalmConfiguration r config
                        (request_method req \<notin> set SAFE_METHODS)]\<rparr>)"
    using deploy_forward [of req t r m w config w1 error changes w2] by blast
  then show "fst (deployConfiguration m req t (start w)) =
        Inr (Response HTTP_200_OK
               [(''changed'', PyBool (\<not> truthy error)), (''changes'', changes),
                (''error'', error)])"
    by simp
next
  fix st body
  assume "fst (deployConfiguration m req t (start w)) = Inr (Response st body)"
  from deploy_response [OF this]
  show "\<exists>r config error changes.
           target_router t = Some r \<and>
           fst (generate_configuration m t w) = Inr config \<and>
           fst (Router_set_napalm_configuration m r config (request_method req \<notin> set SAFE_METHODS)
                  (snd (generate_configuration m t w))) = Inr (error, changes) \<and>
           body = [(''changed'', PyBool (\<not> truthy error)), (''changes'', changes),
                   (''error'', error)]"
    by blast
qed

theorem deployConfiguration_changed_is_not_error_witness:
  "deploy_checks_pass post_request (RouterTarget r5) \<and> deploy_checks_pass get_request (IXTarget ix5)
   \<and> fst (deployConfiguration layer1 post_request (RouterTarget r5) (start db1)) =
     Inr (Response HTTP_200_OK
            [(''changed'', PyBool True), (''changes'', PyStr []), (''error'', PyNone)])
   \<and> fst (deployConfiguration layer1 post_request (RouterTarget r4) (start db1)) =
     Inr (Response HTTP_200_OK
            [(''changed'', PyBool False), (''changes'', PyNone),
             (''error'', PyStr ''cannot connect'')])
   \<and> fst (deployConfiguration layer1 post_request (IXTarget ix6) (start db1)) =
     Inr (Response HTTP_200_OK
            [(''changed'', PyBool True), (''changes'', PyStr []), (''error'', PyNone)])
   \<and> fst (deployConfiguration layer1 get_request (IXTarget ix5) (start db1)) =
     Inr (Response HTTP_200_OK
            [(''changed'', PyBool False), (''changes'', PyNone),
             (''error'', PyStr ''cannot connect'')])"
proof -
  note forward = deployConfiguration_changed_is_not_error [THEN conjunct1, rule_format]
  have c: "deploy_checks_pass post_request (RouterTarget r5)"
    "deploy_checks_pass post_request (RouterTarget r4)"
    "deploy_checks_pass post_request (IXTarget ix6)"
    "deploy_checks_pass get_request (IXTarget ix5)"
    by (simp_all add: get_request_def post_request_def r4_def r5_def ix5_def ix6_def)
  have tr: "target_router (RouterTarget r5) = Some r5" "target_router (RouterTarget r4) = Some r4"
    "target_router (IXTarget ix6) = Some r5" "target_router (IXTarget ix5) = Some r4"
    by (simp_all add: ix5_def ix6_def)
  have g: "generate_configuration layer1 (RouterTarget r5) db1 = (Inr ''protocols bgp'', db1)"
    "generate_configuration layer1 (RouterTarget r4) db1 = (Inr ''protocols bgp'', db1)"
    "generate_configuration layer1 (IXTarget ix6) db1 = (Inr ''protocols bgp ix'', db1)"
    "generate_configuration layer1 (IXTarget ix5) db1 = (Inr ''protocols bgp ix'', db1)"
    by (simp_all add: layer1_def r4_def r5_def ix5_def ix6_def)
  have push: "\<And>config commit.
      Router_set_napalm_configuration layer1 r5 config commit db1 = (Inr (PyNone, PyStr []), db1)"
    "\<And>config commit.
      Router_set_napalm_configuration layer1 r4 config commit db1 =
        (Inr (PyStr ''cannot connect'', PyNone), db1)"
    by (simp_all add: layer1_def r4_def r5_def)
  have run1: "fst (deployConfiguration layer1 post_request (RouterTarget r5) (start db1)) =
     Inr (Response HTTP_200_OK
            [(''changed'', PyBool (\<not> truthy PyNone)), (''changes'', PyStr []),
             (''error'', PyNone)])"
    using forward [where req = post_request and t = "RouterTarget r5" and r = r5 and m = layer1
                     and w = db1 and config = "''protocols bgp''" and ?w1.0 = db1
                     and error = PyNone and changes = "PyStr []" and ?w2.0 = db1]
          c tr g push
    by simp
  have run2: "fst (deployConfiguration layer1 post_request (RouterTarget r4) (start db1)) =
     Inr (Response HTTP_200_OK
            [(''changed'', PyBool (\<not> truthy (PyStr ''cannot connect''))), (''changes'', PyNone),
             (''error'', PyStr ''cannot connect'')])"
    using forward [where req = post_request and t = "RouterTarget r4" and r = r4 and m = layer1
                     and w = db1 and config = "''protocols bgp''" and ?w1.0 = db1
                     and error = "PyStr ''cannot connect''" and changes = PyNone and ?w2.0 = db1]
          c tr g push
    by simp
  have run3: "fst (deployConfiguration layer1 post_request (IXTarget ix6) (start db1)) =
     Inr (Response HTTP_200_OK
            [(''changed'', PyBool (\<not> truthy PyNone)), (''changes'', PyStr []),
             (''error'', PyNone)])"
    using forward [where req = post_request and t = "IXTarget ix6" and r = r5 and m = layer1
                     and w = db1 and config = "''protocols bgp ix''" and ?w1.0 = db1
                     and error = PyNone and changes = "PyStr []" and ?w2.0 = db1]
          c tr g push
    by simp
  have run4: "fst (deployConfiguration layer1 get_request (IXTarget ix5) (start db1)) =
     Inr (Response HTTP_200_OK
            [(''changed'', PyBool (\<not> truthy (PyStr ''cannot connect''))), (''changes'', PyNone),
             (''error'', PyStr ''cannot connect'')])"
    using forward [where req = get_request and t = "IXTarget ix5" and r = r4 and m = layer1
                     and w = db1 and config = "''protocols bgp ix''" and ?w1.0 = db1
                     and error = "PyStr ''cannot connect''" and changes = PyNone and ?w2.0 = db1]
          c tr g push
    by simp
  show ?thesis
    unfolding run1 run2 run3 run4 using c(1,4) by simp
qed

end
